theory Spec2Isabelle
  imports Complex_Main "HOL-Library.Word" "HOL-Library.Sublist"
begin

section \<open>Strings of the program\<close>

text \<open>
  A JavaScript string is a sequence of 16-bit code units. Every string of the program
  (the page, a username, a bio, a code) is a list of such units; \<open>js\<close> turns a literal
  of the theory into the string with the same code units.
\<close>

type_synonym code_unit = "16 word"
type_synonym jsstring = "code_unit list"

definition cu :: "char \<Rightarrow> code_unit" where
  "cu c = of_nat (of_char c)"

definition js :: "string \<Rightarrow> jsstring" where
  "js s = map cu s"

text \<open>
  White space of the language (WhiteSpace and LineTerminator of ECMAScript): what
  \<open>String.prototype.trim\<close> strips and what \<open>\s\<close> matches in a regular expression.
\<close>

definition isWhiteSpace :: "code_unit \<Rightarrow> bool" where
  "isWhiteSpace c =
     (c = 0x09 \<or> c = 0x0A \<or> c = 0x0B \<or> c = 0x0C \<or> c = 0x0D \<or> c = 0x20 \<or> c = 0xA0
      \<or> c = 0x1680 \<or> (0x2000 \<le> c \<and> c \<le> 0x200A) \<or> c = 0x2028 \<or> c = 0x2029
      \<or> c = 0x202F \<or> c = 0x205F \<or> c = 0x3000 \<or> c = 0xFEFF)"

text \<open>\<open>s.trim()\<close>: white space removed at both ends.\<close>

definition trim :: "jsstring \<Rightarrow> jsstring" where
  "trim s = rev (dropWhile isWhiteSpace (rev (dropWhile isWhiteSpace s)))"

text \<open>
  \<open>s.replace('@', '')\<close> with a string pattern: the first occurrence of the unit is
  removed, wherever it stands; later occurrences stay.
\<close>

fun removeFirst :: "code_unit \<Rightarrow> jsstring \<Rightarrow> jsstring" where
  "removeFirst c [] = []"
| "removeFirst c (x # xs) = (if x = c then xs else x # removeFirst c xs)"

text \<open>
  \<open>s.includes(t)\<close>: some position of \<open>s\<close> where \<open>t\<close> stands, unit by unit. The
  empty string is included in every string.
\<close>

fun startsWith :: "jsstring \<Rightarrow> jsstring \<Rightarrow> bool" where
  "startsWith s [] = True"
| "startsWith [] (y # t) = False"
| "startsWith (x # s) (y # t) = (x = y \<and> startsWith s t)"

fun str_includes :: "jsstring \<Rightarrow> jsstring \<Rightarrow> bool" where
  "str_includes [] t = startsWith [] t"
| "str_includes (x # s) t = (startsWith (x # s) t \<or> str_includes s t)"

text \<open>The decimal form of an integer, as \<open>String(n)\<close> writes it.\<close>

function decimal :: "int \<Rightarrow> jsstring" where
  "decimal n =
     (if n < 0 then 0x2D # decimal (- n)
      else if n < 10 then [of_int (48 + n)]
      else decimal (n div 10) @ [of_int (48 + n mod 10)])"
  by pat_completeness auto
termination
  by (relation "measure (\<lambda>n. if n < 0 then nat (2 - 2 * n) else nat n)") auto

declare decimal.simps [simp del]

section \<open>Regular expressions\<close>

text \<open>
  The five regular expressions of the source are sequences of single-unit atoms, each
  taken once, under a greedy star or under a lazy star, with one capture group. \<open>bt\<close> is
  the backtracking matcher of ECMAScript on that fragment: a greedy star first tries one
  more unit and falls back to the rest of the pattern, a lazy star first tries the rest of
  the pattern and falls back to one more unit. \<open>Mark\<close> stands for a parenthesis of the
  group: it records the input left at that point.
\<close>

datatype cset =
    Ch code_unit        \<comment> \<open>a literal unit\<close>
  | ChI code_unit       \<comment> \<open>a literal unit under the flag \<open>i\<close>\<close>
  | NotCh code_unit     \<comment> \<open>\<open>[^c]\<close>\<close>
  | AnyCh               \<comment> \<open>\<open>.\<close> under the flag \<open>s\<close>\<close>
  | Space               \<comment> \<open>\<open>\s\<close>\<close>

datatype item = One cset | Star cset | Lazy cset | Mark

text \<open>
  Under the flag \<open>i\<close> (without \<open>u\<close>) two units match when their canonical forms agree;
  a unit outside ASCII never canonicalises to an ASCII letter, so against the ASCII
  literals of the source only the two cases of a letter match.
\<close>

definition asciiUpper :: "code_unit \<Rightarrow> code_unit" where
  "asciiUpper c = (if 0x61 \<le> c \<and> c \<le> 0x7A then c - 0x20 else c)"

fun accepts :: "cset \<Rightarrow> code_unit \<Rightarrow> bool" where
  "accepts (Ch a) c = (c = a)"
| "accepts (ChI a) c = (asciiUpper c = asciiUpper a)"
| "accepts (NotCh a) c = (c \<noteq> a)"
| "accepts AnyCh c = True"
| "accepts Space c = isWhiteSpace c"

fun bt :: "item list \<Rightarrow> jsstring \<Rightarrow> jsstring list \<Rightarrow> (jsstring list \<times> jsstring) option" where
  "bt [] s marks = Some (marks, s)"
| "bt (Mark # p) s marks = bt p s (marks @ [s])"
| "bt (One a # p) [] marks = None"
| "bt (One a # p) (c # s) marks = (if accepts a c then bt p s marks else None)"
| "bt (Star a # p) [] marks = bt p [] marks"
| "bt (Star a # p) (c # s) marks =
     (if accepts a c
      then (case bt (Star a # p) s marks of Some r \<Rightarrow> Some r | None \<Rightarrow> bt p (c # s) marks)
      else bt p (c # s) marks)"
| "bt (Lazy a # p) [] marks = bt p [] marks"
| "bt (Lazy a # p) (c # s) marks =
     (case bt p (c # s) marks of
        Some r \<Rightarrow> Some r
      | None \<Rightarrow> if accepts a c then bt (Lazy a # p) s marks else None)"

text \<open>
  \<open>pattern.exec(s)\<close> from index 0: the match at the leftmost position that has one.
\<close>

fun exec :: "item list \<Rightarrow> jsstring \<Rightarrow> (jsstring list \<times> jsstring) option" where
  "exec p [] = bt p [] []"
| "exec p (c # s) = (case bt p (c # s) [] of Some r \<Rightarrow> Some r | None \<Rightarrow> exec p s)"

text \<open>\<open>match[1]\<close>: the units between the two marks of the group.\<close>

fun group1 :: "jsstring list \<times> jsstring \<Rightarrow> jsstring" where
  "group1 (a # b # ms, r) = take (length a - length b) a"
| "group1 (ms, r) = []"

definition lit :: "string \<Rightarrow> item list" where
  "lit s = map (\<lambda>c. One (Ch (cu c))) s"

definition litI :: "string \<Rightarrow> item list" where
  "litI s = map (\<lambda>c. One (ChI (cu c))) s"

text \<open>\<^verbatim>\<open>/<script type="application\/ld\+json"[^>]*>(.*?)<\/script>/gs\<close>\<close>

definition jsonLdPattern :: "item list" where
  "jsonLdPattern =
     lit ''<script type=\"application/ld+json\"'' @ [Star (NotCh 0x3E), One (Ch 0x3E)]
     @ [Mark, Lazy AnyCh, Mark] @ lit ''</script>''"

text \<open>\<^verbatim>\<open>/<meta\s+name="description"\s+content="([^"]*)"[^>]*>/i\<close>\<close>

definition metaDescPattern :: "item list" where
  "metaDescPattern =
     litI ''<meta'' @ [One Space, Star Space] @ litI ''name=\"description\"''
     @ [One Space, Star Space] @ litI ''content=\"'' @ [Mark, Star (NotCh 0x22), Mark]
     @ litI ''\"'' @ [Star (NotCh 0x3E)] @ litI ''>''"

text \<open>\<^verbatim>\<open>/window\['SIGI_STATE'\]\s*=\s*({.*?});/s\<close>\<close>

definition sigiPattern :: "item list" where
  "sigiPattern =
     lit ''window['' @ [One (Ch 0x27)] @ lit ''SIGI_STATE'' @ [One (Ch 0x27)] @ lit '']''
     @ [Star Space] @ lit ''='' @ [Star Space]
     @ [Mark] @ lit ''{'' @ [Lazy AnyCh] @ lit ''}'' @ [Mark] @ lit '';''"

text \<open>\<^verbatim>\<open>/<div[^>]*data-e2e="user-bio"[^>]*>(.*?)<\/div>/s\<close>\<close>

definition bioElementPattern :: "item list" where
  "bioElementPattern =
     lit ''<div'' @ [Star (NotCh 0x3E)] @ lit ''data-e2e=\"user-bio\"''
     @ [Star (NotCh 0x3E), One (Ch 0x3E)] @ [Mark, Lazy AnyCh, Mark] @ lit ''</div>''"

text \<open>\<^verbatim>\<open>/<[^>]*>/g\<close>, the tags that the fourth strategy removes.\<close>

definition tagPattern :: "item list" where
  "tagPattern = [One (Ch 0x3C), Star (NotCh 0x3E), One (Ch 0x3E)]"

section \<open>Values and errors of the language\<close>

text \<open>
  The values that the program handles: what \<open>JSON.parse\<close> builds, and \<open>undefined\<close>. A
  number carries the exact value of its literal; the program only ever tests a number for
  truth. An object lists its properties in the order of their creation.
\<close>

datatype jsval =
    JUndefined
  | JNull
  | JBool bool
  | JNum rat
  | JStr jsstring
  | JArr "jsval list"
  | JObj "(jsstring \<times> jsval) list"

text \<open>
  What the program can throw: \<open>new Error(message)\<close>, the \<open>TypeError\<close> of the language
  (a property read on \<open>undefined\<close> or \<open>null\<close>, a call of what is not a function), the
  \<open>SyntaxError\<close> of \<open>JSON.parse\<close>, and whatever \<open>fetch\<close> rejects with.
\<close>

datatype error = Error jsstring | TypeError | SyntaxError | FetchFailed jsstring

text \<open>Sequencing of steps that may throw: the first error ends the sequence.\<close>

definition bind :: "error + 'a \<Rightarrow> ('a \<Rightarrow> error + 'b) \<Rightarrow> error + 'b" where
  "bind m f = (case m of Inl e \<Rightarrow> Inl e | Inr x \<Rightarrow> f x)"

text \<open>\<open>try { m } catch (e) { h e }\<close>\<close>

definition try_catch :: "error + 'a \<Rightarrow> (error \<Rightarrow> error + 'a) \<Rightarrow> error + 'a" where
  "try_catch m h = (case m of Inl e \<Rightarrow> h e | Inr x \<Rightarrow> Inr x)"

text \<open>
  Truth of a value in a condition. A number is false when it is zero as a double: the
  literal's value rounds to zero exactly when its magnitude is at most \<open>2\<^sup>-\<^sup>1\<^sup>0\<^sup>7\<^sup>5\<close>, half
  of the least positive double.
\<close>

fun truthy :: "jsval \<Rightarrow> bool" where
  "truthy JUndefined = False"
| "truthy JNull = False"
| "truthy (JBool b) = b"
| "truthy (JNum q) = (1 < 2 ^ 1075 * \<bar>q\<bar>)"
| "truthy (JStr s) = (s \<noteq> [])"
| "truthy (JArr vs) = True"
| "truthy (JObj ps) = True"

text \<open>
  An array index is the canonical decimal form of an integer below \<open>2\<^sup>3\<^sup>2 - 1\<close>.
\<close>

definition isDigit :: "code_unit \<Rightarrow> bool" where
  "isDigit c = (0x30 \<le> c \<and> c \<le> 0x39)"

definition digitsValue :: "jsstring \<Rightarrow> int" where
  "digitsValue ds = foldl (\<lambda>n d. 10 * n + uint (d - 0x30)) 0 ds"

definition arrayIndex :: "jsstring \<Rightarrow> nat option" where
  "arrayIndex k =
     (if k \<noteq> [] \<and> list_all isDigit k \<and> (hd k \<noteq> 0x30 \<or> length k = 1)
         \<and> digitsValue k < 4294967295
      then Some (nat (digitsValue k)) else None)"

text \<open>
  \<open>v.k\<close> and \<open>v[k]\<close>. Reading a property of \<open>undefined\<close> or \<open>null\<close> throws. The names
  that the program reads (\<open>description\<close>, \<open>UserModule\<close>, \<open>users\<close>, \<open>UserPage\<close>, \<open>user\<close>,
  \<open>signature\<close>, \<open>username\<close>, \<open>code\<close>, and a key that \<open>Object.keys\<close> returned) are on no
  built-in prototype, so a name that the value does not own reads as \<open>undefined\<close>.
\<close>

fun getProp :: "jsval \<Rightarrow> jsstring \<Rightarrow> error + jsval" where
  "getProp JUndefined k = Inl TypeError"
| "getProp JNull k = Inl TypeError"
| "getProp (JBool b) k = Inr JUndefined"
| "getProp (JNum q) k = Inr JUndefined"
| "getProp (JStr s) k =
     (case arrayIndex k of
        Some i \<Rightarrow> Inr (if i < length s then JStr [s ! i] else JUndefined)
      | None \<Rightarrow> Inr (if k = js ''length'' then JNum (of_nat (length s)) else JUndefined))"
| "getProp (JArr vs) k =
     (case arrayIndex k of
        Some i \<Rightarrow> Inr (if i < length vs then vs ! i else JUndefined)
      | None \<Rightarrow> Inr (if k = js ''length'' then JNum (of_nat (length vs)) else JUndefined))"
| "getProp (JObj ps) k = Inr (case map_of ps k of Some v \<Rightarrow> v | None \<Rightarrow> JUndefined)"

text \<open>
  \<open>Object.keys(v)\<close>: the own enumerable property names, array indices first in
  ascending order, then the other names in the order of their creation. It throws on
  \<open>undefined\<close> and \<open>null\<close>.
\<close>

definition ownKeys :: "(jsstring \<times> jsval) list \<Rightarrow> jsstring list" where
  "ownKeys ps =
     map (\<lambda>i. decimal (int i)) (sort (List.map_filter arrayIndex (map fst ps)))
     @ filter (\<lambda>k. arrayIndex k = None) (map fst ps)"

fun Object_keys :: "jsval \<Rightarrow> error + jsstring list" where
  "Object_keys JUndefined = Inl TypeError"
| "Object_keys JNull = Inl TypeError"
| "Object_keys (JBool b) = Inr []"
| "Object_keys (JNum q) = Inr []"
| "Object_keys (JStr s) = Inr (map (\<lambda>i. decimal (int i)) [0..<length s])"
| "Object_keys (JArr vs) = Inr (map (\<lambda>i. decimal (int i)) [0..<length vs])"
| "Object_keys (JObj ps) = Inr (ownKeys ps)"

section \<open>JSON.parse\<close>

text \<open>
  The grammar of JSON texts, in two passes. The first cuts the text into tokens: the six
  punctuation marks, strings with their escapes resolved, numbers, and the three literal
  names; white space (tab, line feed, carriage return, space) separates tokens. The
  second builds the value with a stack of the arrays and objects still open.
\<close>

datatype token =
    LBrace | RBrace | LBracket | RBracket | Comma | Colon
  | TString jsstring | TNumber rat | TTrue | TFalse | TNull

definition hexDigit :: "code_unit \<Rightarrow> code_unit option" where
  "hexDigit c =
     (if 0x30 \<le> c \<and> c \<le> 0x39 then Some (c - 0x30)
      else if 0x41 \<le> c \<and> c \<le> 0x46 then Some (c - 0x41 + 10)
      else if 0x61 \<le> c \<and> c \<le> 0x66 then Some (c - 0x61 + 10)
      else None)"

definition hex4 :: "code_unit \<Rightarrow> code_unit \<Rightarrow> code_unit \<Rightarrow> code_unit \<Rightarrow> code_unit option" where
  "hex4 a b c d =
     (case (hexDigit a, hexDigit b, hexDigit c, hexDigit d) of
        (Some h1, Some h2, Some h3, Some h4) \<Rightarrow> Some (((h1 * 16 + h2) * 16 + h3) * 16 + h4)
      | _ \<Rightarrow> None)"

text \<open>The unit that a one-letter escape stands for.\<close>

definition escapeUnit :: "code_unit \<Rightarrow> code_unit option" where
  "escapeUnit e =
     (if e = 0x22 \<or> e = 0x5C \<or> e = 0x2F then Some e
      else if e = 0x62 then Some 0x08
      else if e = 0x66 then Some 0x0C
      else if e = 0x6E then Some 0x0A
      else if e = 0x72 then Some 0x0D
      else if e = 0x74 then Some 0x09
      else None)"

definition consUnit :: "code_unit \<Rightarrow> (jsstring \<times> jsstring) option \<Rightarrow> (jsstring \<times> jsstring) option" where
  "consUnit u r = (case r of None \<Rightarrow> None | Some (str, rest) \<Rightarrow> Some (u # str, rest))"

text \<open>
  The units of a string literal after its opening quote, up to the closing quote: the
  string's value and the text after the quote. A control unit below \<open>0x20\<close> is not
  allowed unescaped.
\<close>

fun jsonChars :: "jsstring \<Rightarrow> (jsstring \<times> jsstring) option" where
  "jsonChars [] = None"
| "jsonChars (c # s) =
     (if c = 0x22 then Some ([], s)
      else if c = 0x5C then
        (case s of
           [] \<Rightarrow> None
         | e # s1 \<Rightarrow>
             if e = 0x75 then
               (case s1 of
                  h1 # h2 # h3 # h4 # s2 \<Rightarrow>
                    (case hex4 h1 h2 h3 h4 of
                       None \<Rightarrow> None
                     | Some u \<Rightarrow> consUnit u (jsonChars s2))
                | _ \<Rightarrow> None)
             else
               (case escapeUnit e of
                  None \<Rightarrow> None
                | Some u \<Rightarrow> consUnit u (jsonChars s1)))
      else if c < 0x20 then None
      else consUnit c (jsonChars s))"

text \<open>
  A number literal: an optional minus sign, an integer part (\<open>0\<close>, or digits that do not
  start with \<open>0\<close>), an optional fraction and an optional exponent, each with at least one
  digit.
\<close>

definition fraction :: "jsstring \<Rightarrow> (jsstring \<times> jsstring) option" where
  "fraction s =
     (case s of
        [] \<Rightarrow> Some ([], s)
      | c # r \<Rightarrow>
          if c = 0x2E
          then (let fd = takeWhile isDigit r
                in if fd = [] then None else Some (fd, dropWhile isDigit r))
          else Some ([], s))"

definition exponent :: "jsstring \<Rightarrow> (int \<times> jsstring) option" where
  "exponent s =
     (case s of
        [] \<Rightarrow> Some (0, s)
      | c # r \<Rightarrow>
          if c = 0x65 \<or> c = 0x45
          then (let (sgn, r1) =
                      (case r of
                         [] \<Rightarrow> (1, r)
                       | d # r' \<Rightarrow> if d = 0x2B then (1, r') else if d = 0x2D then (- 1, r') else (1, r));
                    ed = takeWhile isDigit r1
                in if ed = [] then None else Some (sgn * digitsValue ed, dropWhile isDigit r1))
          else Some (0, s))"

definition scale :: "rat \<Rightarrow> int \<Rightarrow> rat" where
  "scale m e = (if 0 \<le> e then m * 10 ^ nat e else m / 10 ^ nat (- e))"

definition jsonNumber :: "jsstring \<Rightarrow> (rat \<times> jsstring) option" where
  "jsonNumber s =
     (let (neg, s1) = (case s of [] \<Rightarrow> (False, s) | c # r \<Rightarrow> if c = 0x2D then (True, r) else (False, s));
          ip = (case s1 of [] \<Rightarrow> [] | c # r \<Rightarrow> if c = 0x30 then [c] else takeWhile isDigit s1);
          s2 = drop (length ip) s1
      in if ip = [] then None
         else (case fraction s2 of
                 None \<Rightarrow> None
               | Some (fd, s3) \<Rightarrow>
                   (case exponent s3 of
                      None \<Rightarrow> None
                    | Some (e, s4) \<Rightarrow>
                        (let m = scale (of_int (digitsValue (ip @ fd)) / 10 ^ length fd) e
                         in Some (if neg then - m else m, s4)))))"

definition consToken :: "token \<Rightarrow> token list option \<Rightarrow> token list option" where
  "consToken t r = (case r of None \<Rightarrow> None | Some ts \<Rightarrow> Some (t # ts))"

lemma consUnit_Some:
  "consUnit u r = Some (str, rest) \<Longrightarrow> \<exists>str'. r = Some (str', rest)"
  by (cases r) (auto simp: consUnit_def)

lemma jsonChars_shorter: "jsonChars s = Some (str, r) \<Longrightarrow> length r < length s"
proof (induction s arbitrary: str rule: jsonChars.induct)
  case 1
  then show ?case by simp
next
  case (2 c s)
  show ?case
  proof (cases "c = 0x22")
    case True
    with "2.prems" show ?thesis by simp
  next
    case notQuote: False
    show ?thesis
    proof (cases "c = 0x5C")
      case False
      with notQuote "2.prems" obtain str' where "jsonChars s = Some (str', r)"
        by (auto split: if_splits dest: consUnit_Some)
      with "2.IH"(3) notQuote False "2.prems" show ?thesis
        by (fastforce split: if_splits)
    next
      case True
      with notQuote "2.prems" obtain e s1 where s: "s = e # s1"
        by (cases s) auto
      show ?thesis
      proof (cases "e = 0x75")
        case False
        with notQuote True s "2.prems" obtain u str' where
          "escapeUnit e = Some u" "jsonChars s1 = Some (str', r)"
          by (auto split: option.splits dest: consUnit_Some)
        with "2.IH"(2) [OF notQuote True s False] s show ?thesis
          by fastforce
      next
        case isU: True
        with notQuote True s "2.prems" obtain h1 h2 h3 h4 s2 u str' where
          s1: "s1 = h1 # h2 # h3 # h4 # s2" and "hex4 h1 h2 h3 h4 = Some u"
          and "jsonChars s2 = Some (str', r)"
          by (auto split: list.splits option.splits dest: consUnit_Some)
        with "2.IH"(1) [OF notQuote True s isU s1] s show ?thesis
          by fastforce
      qed
    qed
  qed
qed

lemma fraction_shorter: "fraction s = Some (fd, r) \<Longrightarrow> length r \<le> length s"
  by (auto simp: fraction_def Let_def split: list.splits if_splits
      intro: le_SucI length_dropWhile_le)

lemma exponent_shorter: "exponent s = Some (e, r) \<Longrightarrow> length r \<le> length s"
  by (auto simp: exponent_def Let_def split: list.splits if_splits prod.splits
      intro: le_SucI length_dropWhile_le order_trans [OF length_dropWhile_le])

lemma jsonNumber_shorter:
  assumes "jsonNumber s = Some (q, r)"
  shows "length r < length s"
proof -
  obtain neg s1 where ns: "(case s of [] \<Rightarrow> (False, s) | c # t \<Rightarrow> if c = 0x2D then (True, t) else (False, s)) = (neg, s1)"
    by (cases "(case s of [] \<Rightarrow> (False, s) | c # t \<Rightarrow> if c = 0x2D then (True, t) else (False, s))") auto
  define ip where "ip = (case s1 of [] \<Rightarrow> [] | c # t \<Rightarrow> if c = 0x30 then [c] else takeWhile isDigit s1)"
  have s1: "length s1 \<le> length s"
    using ns by (auto split: list.splits if_splits)
  from assms ns have ne: "ip \<noteq> []"
    by (auto simp: jsonNumber_def Let_def ip_def split: if_splits)
  from assms ns ne obtain fd s3 e where
    f: "fraction (drop (length ip) s1) = Some (fd, s3)" and x: "exponent s3 = Some (e, r)"
    by (auto simp: jsonNumber_def Let_def ip_def split: if_splits option.splits)
  have "length ip \<le> length s1"
    by (auto simp: ip_def length_takeWhile_le split: list.splits)
  with ne have "length (drop (length ip) s1) < length s1"
    by (cases ip) auto
  with fraction_shorter [OF f] exponent_shorter [OF x] s1 show ?thesis
    by linarith
qed

text \<open>The tokens of a text; \<open>None\<close> when some part of it is no token.\<close>

function lexJson :: "jsstring \<Rightarrow> token list option" where
  "lexJson [] = Some []"
| "lexJson (c # s) =
     (if c = 0x09 \<or> c = 0x0A \<or> c = 0x0D \<or> c = 0x20 then lexJson s
      else if c = 0x7B then consToken LBrace (lexJson s)
      else if c = 0x7D then consToken RBrace (lexJson s)
      else if c = 0x5B then consToken LBracket (lexJson s)
      else if c = 0x5D then consToken RBracket (lexJson s)
      else if c = 0x2C then consToken Comma (lexJson s)
      else if c = 0x3A then consToken Colon (lexJson s)
      else if c = 0x22 then
        (case jsonChars s of
           None \<Rightarrow> None
         | Some (str, r) \<Rightarrow> consToken (TString str) (lexJson r))
      else if c = 0x2D \<or> isDigit c then
        (case jsonNumber (c # s) of
           None \<Rightarrow> None
         | Some (q, r) \<Rightarrow> consToken (TNumber q) (lexJson r))
      else if startsWith (c # s) (js ''true'') then consToken TTrue (lexJson (drop 3 s))
      else if startsWith (c # s) (js ''false'') then consToken TFalse (lexJson (drop 4 s))
      else if startsWith (c # s) (js ''null'') then consToken TNull (lexJson (drop 3 s))
      else None)"
  by pat_completeness auto
termination
  by (relation "measure length") (auto dest: jsonChars_shorter jsonNumber_shorter)

text \<open>
  Creation of a property: a name that the object already has keeps its place and takes
  the new value (of a repeated name, the last value stands); a new name comes last.
\<close>

fun setProp :: "jsstring \<Rightarrow> jsval \<Rightarrow> (jsstring \<times> jsval) list \<Rightarrow> (jsstring \<times> jsval) list" where
  "setProp k v [] = [(k, v)]"
| "setProp k v ((k', v') # ps) = (if k' = k then (k, v) # ps else (k', v') # setProp k v ps)"

text \<open>
  The parser. A frame of the stack is an array with the elements read so far, or an
  object with the properties read so far and the name whose value is being read.
  \<open>parseValue\<close> expects a value; \<open>parseAfter\<close> has just read one and expects what may
  follow it in its frame (a comma, the closing mark, or the end of the text).
\<close>

datatype frame = InArray "jsval list" | InObject "(jsstring \<times> jsval) list" jsstring

fun parseValue :: "frame list \<Rightarrow> token list \<Rightarrow> jsval option"
  and parseAfter :: "jsval \<Rightarrow> frame list \<Rightarrow> token list \<Rightarrow> jsval option" where
  "parseValue st [] = None"
| "parseValue st (t # ts) =
     (case t of
        TString s \<Rightarrow> parseAfter (JStr s) st ts
      | TNumber q \<Rightarrow> parseAfter (JNum q) st ts
      | TTrue \<Rightarrow> parseAfter (JBool True) st ts
      | TFalse \<Rightarrow> parseAfter (JBool False) st ts
      | TNull \<Rightarrow> parseAfter JNull st ts
      | LBracket \<Rightarrow>
          (case ts of
             RBracket # ts' \<Rightarrow> parseAfter (JArr []) st ts'
           | _ \<Rightarrow> parseValue (InArray [] # st) ts)
      | LBrace \<Rightarrow>
          (case ts of
             RBrace # ts' \<Rightarrow> parseAfter (JObj []) st ts'
           | TString k # Colon # ts' \<Rightarrow> parseValue (InObject [] k # st) ts'
           | _ \<Rightarrow> None)
      | _ \<Rightarrow> None)"
| "parseAfter v [] ts = (if ts = [] then Some v else None)"
| "parseAfter v (f # st) [] = None"
| "parseAfter v (f # st) (t # ts) =
     (case f of
        InArray vs \<Rightarrow>
          (case t of
             Comma \<Rightarrow> parseValue (InArray (vs @ [v]) # st) ts
           | RBracket \<Rightarrow> parseAfter (JArr (vs @ [v])) st ts
           | _ \<Rightarrow> None)
      | InObject ps k \<Rightarrow>
          (case t of
             Comma \<Rightarrow>
               (case ts of
                  TString k' # Colon # ts' \<Rightarrow> parseValue (InObject (setProp k v ps) k' # st) ts'
                | _ \<Rightarrow> None)
           | RBrace \<Rightarrow> parseAfter (JObj (setProp k v ps)) st ts
           | _ \<Rightarrow> None))"

text \<open>\<open>JSON.parse(text)\<close>: the value of the text, or a \<open>SyntaxError\<close>.\<close>

definition JSON_parse :: "jsstring \<Rightarrow> error + jsval" where
  "JSON_parse text =
     (case lexJson text of
        None \<Rightarrow> Inl SyntaxError
      | Some ts \<Rightarrow> (case parseValue [] ts of None \<Rightarrow> Inl SyntaxError | Some v \<Rightarrow> Inr v))"

section \<open>The bio extractor\<close>

text \<open>
  \<open>a && b\<close>: the value of \<open>a\<close> when it is false in a condition, otherwise the value of
  \<open>b\<close>, which is only then evaluated.
\<close>

definition andAlso :: "jsval \<Rightarrow> (error + jsval) \<Rightarrow> error + jsval" where
  "andAlso a b = (if truthy a then b else Inr a)"

text \<open>
  \<open>findUserInSigiState\<close>: the first user of the table \<open>UserModule.users\<close> when the table
  has a key, otherwise \<open>UserPage.user\<close>, otherwise \<open>null\<close>. An error inside is caught and
  gives \<open>null\<close>. In the body, \<open>Some v\<close> stands for \<open>return v\<close>.
\<close>

definition findUserInSigiState :: "jsval \<Rightarrow> error + jsval" where
  "findUserInSigiState sigiState =
     try_catch
       (bind (getProp sigiState (js ''UserModule'')) (\<lambda>userModule.
        bind (andAlso userModule (getProp userModule (js ''users''))) (\<lambda>hasUsers.
        bind (if truthy hasUsers
              then bind (getProp userModule (js ''users'')) (\<lambda>users.
                   bind (Object_keys users) (\<lambda>userKeys.
                   if length userKeys > 0
                   then bind (getProp users (userKeys ! 0)) (\<lambda>user. Inr (Some user))
                   else Inr None))
              else Inr None) (\<lambda>returned.
        case returned of
          Some user \<Rightarrow> Inr user
        | None \<Rightarrow>
            bind (getProp sigiState (js ''UserPage'')) (\<lambda>userPage.
            bind (andAlso userPage (getProp userPage (js ''user''))) (\<lambda>hasUser.
            if truthy hasUser then getProp userPage (js ''user'') else Inr JNull))))))
       (\<lambda>e. Inr JNull)"

text \<open>
  \<open>match[1].replace(/<[^>]*>/g, '')\<close>: every match of the tag pattern is removed, from
  left to right, the search going on after each match.
\<close>

lemma bt_rest_length: "bt p s marks = Some (marks', r) \<Longrightarrow> length r \<le> length s"
proof (induction p s marks arbitrary: marks' r rule: bt.induct)
  case (6 a p c s marks)
  then show ?case
    by (fastforce split: if_splits option.splits)
next
  case (8 a p c s marks)
  then show ?case
    by (fastforce split: if_splits option.splits)
qed (auto split: if_splits)

lemma bt_tagPattern_shorter:
  "bt tagPattern (c # s) [] = Some (marks, r) \<Longrightarrow> length r < Suc (length s)"
  using bt_rest_length [of "[Star (NotCh 0x3E), One (Ch 0x3E)]" s "[]" marks r]
  by (auto simp: tagPattern_def split: if_splits)

function stripTags :: "jsstring \<Rightarrow> jsstring" where
  "stripTags [] = []"
| "stripTags (c # s) =
     (case bt tagPattern (c # s) [] of
        Some (marks, rest) \<Rightarrow> stripTags rest
      | None \<Rightarrow> c # stripTags s)"
  by pat_completeness auto
termination
  by (relation "measure length") (auto dest: bt_tagPattern_shorter)

text \<open>
  The four strategies of \<open>extractBioFromHtml\<close>, in the order of the source. Each gives
  \<open>Some bio\<close> when its \<open>return\<close> is reached and \<open>None\<close> when control goes on to the
  next one; the first and the third run in a \<open>try\<close> whose \<open>catch\<close> only logs.
\<close>

definition pattern1_jsonLd :: "jsstring \<Rightarrow> error + jsval option" where
  "pattern1_jsonLd html =
     (case exec jsonLdPattern html of
        None \<Rightarrow> Inr None
      | Some match \<Rightarrow>
          try_catch
            (bind (JSON_parse (group1 match)) (\<lambda>jsonData.
             bind (getProp jsonData (js ''description'')) (\<lambda>description.
             if truthy description then Inr (Some description) else Inr None)))
            (\<lambda>e. Inr None))"

definition pattern2_metaDescription :: "jsstring \<Rightarrow> error + jsval option" where
  "pattern2_metaDescription html =
     (case exec metaDescPattern html of
        None \<Rightarrow> Inr None
      | Some match \<Rightarrow>
          if truthy (JStr (group1 match)) then Inr (Some (JStr (group1 match))) else Inr None)"

definition pattern3_sigiState :: "jsstring \<Rightarrow> error + jsval option" where
  "pattern3_sigiState html =
     (case exec sigiPattern html of
        None \<Rightarrow> Inr None
      | Some match \<Rightarrow>
          try_catch
            (bind (JSON_parse (group1 match)) (\<lambda>sigiState.
             bind (findUserInSigiState sigiState) (\<lambda>userDetails.
             bind (andAlso userDetails (getProp userDetails (js ''signature''))) (\<lambda>signature.
             if truthy signature then Inr (Some signature) else Inr None))))
            (\<lambda>e. Inr None))"

definition pattern4_bioElement :: "jsstring \<Rightarrow> error + jsval option" where
  "pattern4_bioElement html =
     (case exec bioElementPattern html of
        None \<Rightarrow> Inr None
      | Some match \<Rightarrow>
          if truthy (JStr (group1 match))
          then (let bioText = trim (stripTags (group1 match))
                in if truthy (JStr bioText) then Inr (Some (JStr bioText)) else Inr None)
          else Inr None)"

text \<open>
  \<open>extractBioFromHtml\<close>, cut at the comments of the source: the function from its
  second, third and fourth strategy on, and the whole function. The last line is
  \<open>return null\<close>.
\<close>

definition fromPattern4 :: "jsstring \<Rightarrow> error + jsval" where
  "fromPattern4 html =
     bind (pattern4_bioElement html) (\<lambda>r. case r of Some bio \<Rightarrow> Inr bio | None \<Rightarrow> Inr JNull)"

definition fromPattern3 :: "jsstring \<Rightarrow> error + jsval" where
  "fromPattern3 html =
     bind (pattern3_sigiState html) (\<lambda>r. case r of Some bio \<Rightarrow> Inr bio | None \<Rightarrow> fromPattern4 html)"

definition fromPattern2 :: "jsstring \<Rightarrow> error + jsval" where
  "fromPattern2 html =
     bind (pattern2_metaDescription html) (\<lambda>r. case r of Some bio \<Rightarrow> Inr bio | None \<Rightarrow> fromPattern3 html)"

definition extractBioFromHtml :: "jsstring \<Rightarrow> error + jsval" where
  "extractBioFromHtml html =
     bind (pattern1_jsonLd html) (\<lambda>r. case r of Some bio \<Rightarrow> Inr bio | None \<Rightarrow> fromPattern2 html)"

section \<open>The fetcher\<close>

text \<open>
  What the program does to the world is a list of events in the order they happen: a GET
  of a URL, a pause of so many milliseconds. The network is a parameter: the outcome of
  the \<open>k\<close>-th GET (counting from 0) of a URL, a response or the error that \<open>fetch\<close>
  rejects with. A response carries its status, its status text, and what
  \<open>response.text()\<close> gives. The headers of the request are constants of the source and are not
  recorded. Nor are the lines written to the console; those of the extractor, the
  fetcher and the retry loop are built from strings and numbers only and cannot throw
  (where the loop writes the bio and the code, both have just been lower-cased and so
  are strings). The one line that can throw is that of the handler, which is modelled
  there.
\<close>

record response =
  status :: int
  statusText :: jsstring
  bodyText :: "error + jsstring"

datatype event = Fetched jsstring | Slept int

type_synonym world = "event list"
type_synonym network = "nat \<Rightarrow> jsstring \<Rightarrow> error + response"

fun isFetched :: "event \<Rightarrow> bool" where
  "isFetched (Fetched url) = True"
| "isFetched (Slept ms) = False"

definition fetch :: "network \<Rightarrow> jsstring \<Rightarrow> world \<Rightarrow> (error + response) \<times> world" where
  "fetch net url w = (net (length (filter isFetched w)) url, w @ [Fetched url])"

definition sleep :: "int \<Rightarrow> world \<Rightarrow> world" where
  "sleep ms w = w @ [Slept ms]"

text \<open>\<open>response.ok\<close>: the status is in the range 200 to 299.\<close>

definition ok :: "response \<Rightarrow> bool" where
  "ok r = (200 \<le> status r \<and> status r \<le> 299)"

definition profileUrl :: "jsstring \<Rightarrow> jsstring" where
  "profileUrl username = js ''https://www.tiktok.com/@'' @ username"

definition scrapeTikTokBio :: "network \<Rightarrow> jsstring \<Rightarrow> world \<Rightarrow> (error + jsval) \<times> world" where
  "scrapeTikTokBio net username w =
     (let (fetched, w') = fetch net (profileUrl username) w
      in (bind fetched (\<lambda>response.
            if \<not> ok response then
              (if status response = 404
               then Inl (Error (js ''TikTok user @'' @ username @ js '' not found''))
               else if status response = 403
               then Inl (Error (js ''TikTok blocked request (403 Forbidden)''))
               else Inl (Error (js ''HTTP '' @ decimal (status response) @ js '': ''
                                 @ statusText response)))
            else bind (bodyText response) (\<lambda>html. extractBioFromHtml html)), w'))"

section \<open>The retry loop and the matcher\<close>

text \<open>
  \<open>v.toLowerCase()\<close>: a string has the method; on any other value the call throws a
  \<open>TypeError\<close>. The case mapping of Unicode is a table that the source does not
  contain: it is the parameter \<open>lower\<close>.
\<close>

definition toLowerCase :: "(jsstring \<Rightarrow> jsstring) \<Rightarrow> jsval \<Rightarrow> error + jsstring" where
  "toLowerCase lower v = (case v of JStr s \<Rightarrow> Inr (lower s) | _ \<Rightarrow> Inl TypeError)"

text \<open>\<open>bioText.toLowerCase().includes(code.toLowerCase())\<close>\<close>

definition codeFound :: "(jsstring \<Rightarrow> jsstring) \<Rightarrow> jsval \<Rightarrow> jsval \<Rightarrow> error + bool" where
  "codeFound lower bioText code =
     bind (toLowerCase lower bioText) (\<lambda>bio.
     bind (toLowerCase lower code) (\<lambda>c. Inr (str_includes bio c)))"

definition maxRetries :: int where
  "maxRetries = 3"

text \<open>
  The \<open>for\<close> loop of \<open>checkTikTokBio\<close> from a given attempt on. The body of the \<open>try\<close>
  either returns the verdict (\<open>Some found\<close>), runs to its end (\<open>None\<close>) or throws.
\<close>

function attempts ::
  "network \<Rightarrow> (jsstring \<Rightarrow> jsstring) \<Rightarrow> jsstring \<Rightarrow> jsval \<Rightarrow> int \<Rightarrow> world \<Rightarrow> (error + bool) \<times> world"
where
  "attempts net lower username code attempt w =
     (if attempt \<le> maxRetries then
        (let (scraped, w1) = scrapeTikTokBio net username w;
             tried = bind scraped (\<lambda>bioText.
                       if truthy bioText
                       then bind (codeFound lower bioText code) (\<lambda>found. Inr (Some found))
                       else Inr None)
         in case tried of
              Inr (Some found) \<Rightarrow> (Inr found, w1)
            | Inr None \<Rightarrow>
                if attempt < maxRetries
                then attempts net lower username code (attempt + 1) (sleep (2000 * attempt) w1)
                else attempts net lower username code (attempt + 1) w1
            | Inl error \<Rightarrow>
                if attempt = maxRetries then (Inl error, w1)
                else attempts net lower username code (attempt + 1) (sleep (1000 * attempt) w1))
      else (Inr False, w))"
  by pat_completeness auto
termination
  by (relation "measure (\<lambda>(net, lower, username, code, attempt, w). nat (maxRetries + 1 - attempt))")
     auto

declare attempts.simps [simp del]

definition checkTikTokBio ::
  "network \<Rightarrow> (jsstring \<Rightarrow> jsstring) \<Rightarrow> jsstring \<Rightarrow> jsval \<Rightarrow> world \<Rightarrow> (error + bool) \<times> world"
where
  "checkTikTokBio net lower username code w = attempts net lower username code 1 w"

section \<open>The request handler\<close>

text \<open>
  A request is its method and its parsed body. The replies of the handler: the empty
  reply to \<open>OPTIONS\<close> (200), method not allowed (405), username and code required (400),
  the verdict with the cleaned username and the code (200), and the internal error with
  what was thrown (500). The time stamp of the verdict is left out.
\<close>

record request =
  httpMethod :: jsstring
  body :: jsval

datatype reply =
    Ended
  | MethodNotAllowed
  | Required
  | Verdict bool jsstring jsval
  | InternalError error

fun statusCode :: "reply \<Rightarrow> int" where
  "statusCode Ended = 200"
| "statusCode MethodNotAllowed = 405"
| "statusCode Required = 400"
| "statusCode (Verdict found username code) = 200"
| "statusCode (InternalError e) = 500"

text \<open>
  \<open>username.replace('@', '').trim()\<close>; a value that is not a string has no method
  \<open>replace\<close>, and the call throws.
\<close>

definition cleanUsername :: "jsval \<Rightarrow> error + jsstring" where
  "cleanUsername username =
     (case username of JStr u \<Rightarrow> Inr (trim (removeFirst 0x40 u)) | _ \<Rightarrow> Inl TypeError)"

text \<open>
  A template literal converts \<open>${v}\<close> to a string. A primitive value always converts.
  An object is converted by its \<open>toString\<close>: an object that owns a property of that
  name has nothing to call there (no value that \<open>JSON.parse\<close> builds is a function) and
  no \<open>valueOf\<close> that gives a primitive, so the conversion throws a \<open>TypeError\<close>; any
  other object converts. An array converts each of its elements and joins them.
  \<open>convertsToString\<close> says whether the conversion returns.
\<close>

fun convertsToString :: "jsval \<Rightarrow> bool" where
  "convertsToString (JArr vs) = list_all convertsToString vs"
| "convertsToString (JObj ps) = (map_of ps (js ''toString'') = None)"
| "convertsToString v = True"

text \<open>
  The line that the handler writes to the console before it calls \<open>checkTikTokBio\<close>,
  with \<open>${cleanUsername}\<close> (a string) and \<open>${code}\<close>: what is written is not recorded,
  but the conversion of the code can throw.
\<close>

definition logChecking :: "jsstring \<Rightarrow> jsval \<Rightarrow> error + unit" where
  "logChecking cleaned code = (if convertsToString code then Inr () else Inl TypeError)"

definition handler ::
  "network \<Rightarrow> (jsstring \<Rightarrow> jsstring) \<Rightarrow> request \<Rightarrow> world \<Rightarrow> reply \<times> world"
where
  "handler net lower req w =
     (if httpMethod req = js ''OPTIONS'' then (Ended, w)
      else if httpMethod req \<noteq> js ''POST'' then (MethodNotAllowed, w)
      else
        (case bind (getProp (body req) (js ''username'')) (\<lambda>username.
              bind (getProp (body req) (js ''code'')) (\<lambda>code. Inr (username, code))) of
           Inl e \<Rightarrow> (InternalError e, w)
         | Inr (username, code) \<Rightarrow>
             if \<not> truthy username \<or> \<not> truthy code then (Required, w)
             else
               (case cleanUsername username of
                  Inl e \<Rightarrow> (InternalError e, w)
                | Inr clean \<Rightarrow>
                    (case logChecking clean code of
                       Inl e \<Rightarrow> (InternalError e, w)
                     | Inr logged \<Rightarrow>
                         (case checkTikTokBio net lower clean code w of
                            (Inr bioContainsCode, w') \<Rightarrow> (Verdict bioContainsCode clean code, w')
                          | (Inl e, w') \<Rightarrow> (InternalError e, w'))))))"

text \<open>
  The lower-case mapping on ASCII text, where \<open>String.prototype.toLowerCase\<close> only moves
  the letters \<open>A\<close> to \<open>Z\<close>: the instance of \<open>lower\<close> for the examples.
\<close>

definition asciiLower :: "jsstring \<Rightarrow> jsstring" where
  "asciiLower s = map (\<lambda>c. if 0x41 \<le> c \<and> c \<le> 0x5A then c + 0x20 else c) s"

section \<open>Blocks of a page\<close>

text \<open>
  The first structured-data block of a page and its content, said without the matcher:
  the page is some text in which the opening of the tag starts nowhere, then the opening
  \<^verbatim>\<open><script type="application/ld+json"\<close>, attributes without \<open>>\<close>, the \<open>>\<close>, the
  content, in which the closing tag starts nowhere, and the closing tag. This is the
  reading of "a page with a structured-data block" that the matcher is compared with.
\<close>

definition firstJsonLdBlock :: "jsstring \<Rightarrow> jsstring \<Rightarrow> bool" where
  "firstJsonLdBlock html content \<longleftrightarrow>
     (\<exists>pre attrs post.
        html = pre @ js ''<script type=\"application/ld+json\"'' @ attrs @ 0x3E # content
                 @ js ''</script>'' @ post
        \<and> (\<forall>b. suffix b pre \<and> b \<noteq> [] \<longrightarrow>
               \<not> prefix (js ''<script type=\"application/ld+json\"'')
                   (b @ js ''<script type=\"application/ld+json\"'' @ attrs @ 0x3E # content
                      @ js ''</script>'' @ post))
        \<and> 0x3E \<notin> set attrs
        \<and> (\<forall>b. suffix b content \<and> b \<noteq> [] \<longrightarrow>
               \<not> prefix (js ''</script>'') (b @ js ''</script>'' @ post)))"

section \<open>Sample pages and networks\<close>

text \<open>Pieces of pages that the strategies recognise, for the examples below.\<close>

definition jsonLdBlock :: "jsstring \<Rightarrow> jsstring" where
  "jsonLdBlock content = js ''<script type=\"application/ld+json\">'' @ content @ js ''</script>''"

definition metaTag :: "jsstring \<Rightarrow> jsstring" where
  "metaTag content = js ''<meta name=\"description\" content=\"'' @ content @ js ''\">''"

definition sigiScript :: "jsstring \<Rightarrow> jsstring" where
  "sigiScript state =
     js ''<script>window['' @ [0x27] @ js ''SIGI_STATE'' @ [0x27] @ js ''] = '' @ state
     @ js '';</script>''"

definition bioDiv :: "jsstring \<Rightarrow> jsstring" where
  "bioDiv inner = js ''<div data-e2e=\"user-bio\">'' @ inner @ js ''</div>''"

text \<open>A network that answers every GET with the given status and body.\<close>

definition always :: "int \<Rightarrow> jsstring \<Rightarrow> jsstring \<Rightarrow> network" where
  "always st reason page = (\<lambda>k url. Inr \<lparr>status = st, statusText = reason, bodyText = Inr page\<rparr>)"

section \<open>The extractor never throws\<close>

lemma try_catch_total: "\<exists>r. try_catch m (\<lambda>e. Inr x) = Inr r"
  by (cases m) (simp_all add: try_catch_def)

lemma pattern1_total: "\<exists>r. pattern1_jsonLd html = Inr r"
  unfolding pattern1_jsonLd_def using try_catch_total
  by (cases "exec jsonLdPattern html") auto

lemma pattern2_total: "\<exists>r. pattern2_metaDescription html = Inr r"
  unfolding pattern2_metaDescription_def
  by (cases "exec metaDescPattern html") auto

lemma pattern3_total: "\<exists>r. pattern3_sigiState html = Inr r"
  unfolding pattern3_sigiState_def using try_catch_total
  by (cases "exec sigiPattern html") auto

lemma pattern4_total: "\<exists>r. pattern4_bioElement html = Inr r"
  unfolding pattern4_bioElement_def
  by (cases "exec bioElementPattern html") (auto simp: Let_def)

lemma fromPattern4_total: "\<exists>v. fromPattern4 html = Inr v"
  using pattern4_total [of html]
  by (auto simp: fromPattern4_def bind_def split: option.splits)

lemma fromPattern3_total: "\<exists>v. fromPattern3 html = Inr v"
  using pattern3_total [of html] fromPattern4_total [of html]
  by (auto simp: fromPattern3_def bind_def split: option.splits)

lemma fromPattern2_total: "\<exists>v. fromPattern2 html = Inr v"
  using pattern2_total [of html] fromPattern3_total [of html]
  by (auto simp: fromPattern2_def bind_def split: option.splits)

lemma extractBioFromHtml_total: "\<exists>v. extractBioFromHtml html = Inr v"
  using pattern1_total [of html] fromPattern2_total [of html]
  by (auto simp: extractBioFromHtml_def bind_def split: option.splits)

lemma no_result_gives_null:
  assumes "pattern1_jsonLd html = Inr None" "pattern2_metaDescription html = Inr None"
    "pattern3_sigiState html = Inr None" "pattern4_bioElement html = Inr None"
  shows "extractBioFromHtml html = Inr JNull"
  using assms
  by (simp add: extractBioFromHtml_def fromPattern2_def fromPattern3_def fromPattern4_def bind_def)

text \<open>
  What the extractor returns is \<open>null\<close> or true in a condition: "no result" and
  \<open>null\<close> are the same for the retry loop.
\<close>

lemma strategies_give_truthy:
  "pattern1_jsonLd html = Inr (Some d) \<Longrightarrow> truthy d"
  "pattern2_metaDescription html = Inr (Some d) \<Longrightarrow> truthy d"
  "pattern3_sigiState html = Inr (Some d) \<Longrightarrow> truthy d"
  "pattern4_bioElement html = Inr (Some d) \<Longrightarrow> truthy d"
  by (auto simp: pattern1_jsonLd_def pattern2_metaDescription_def pattern3_sigiState_def
      pattern4_bioElement_def try_catch_def bind_def Let_def
      split: option.splits sum.splits if_splits)

lemma extractBio_null_or_truthy:
  assumes "extractBioFromHtml html = Inr v"
  shows "v = JNull \<or> truthy v"
  using assms strategies_give_truthy [of html]
  by (auto simp: extractBioFromHtml_def fromPattern2_def fromPattern3_def fromPattern4_def
      bind_def split: option.splits sum.splits)

text \<open>
  Claim C3. On every page each of the four strategies ends without throwing, and so does
  \<open>extractBioFromHtml\<close>: it always returns a value. A \<open>JSON.parse\<close> that fails inside
  the first or the third strategy is caught there and the strategy gives no result. When
  no strategy gives a result, and in particular when none of the four patterns occurs in
  the page, the function returns \<open>null\<close>.
\<close>

theorem extractBio_never_throws:
  "(\<exists>r. pattern1_jsonLd html = Inr r) \<and> (\<exists>r. pattern2_metaDescription html = Inr r)
   \<and> (\<exists>r. pattern3_sigiState html = Inr r) \<and> (\<exists>r. pattern4_bioElement html = Inr r)
   \<and> (\<exists>v. extractBioFromHtml html = Inr v)
   \<and> (\<forall>m e. exec jsonLdPattern html = Some m \<and> JSON_parse (group1 m) = Inl e
          \<longrightarrow> pattern1_jsonLd html = Inr None)
   \<and> (\<forall>m e. exec sigiPattern html = Some m \<and> JSON_parse (group1 m) = Inl e
          \<longrightarrow> pattern3_sigiState html = Inr None)
   \<and> (pattern1_jsonLd html = Inr None \<and> pattern2_metaDescription html = Inr None
        \<and> pattern3_sigiState html = Inr None \<and> pattern4_bioElement html = Inr None
        \<longrightarrow> extractBioFromHtml html = Inr JNull)
   \<and> (exec jsonLdPattern html = None \<and> exec metaDescPattern html = None
        \<and> exec sigiPattern html = None \<and> exec bioElementPattern html = None
        \<longrightarrow> extractBioFromHtml html = Inr JNull)"
proof -
  have caught1: "\<forall>m e. exec jsonLdPattern html = Some m \<and> JSON_parse (group1 m) = Inl e
          \<longrightarrow> pattern1_jsonLd html = Inr None"
    by (simp add: pattern1_jsonLd_def try_catch_def bind_def)
  have caught3: "\<forall>m e. exec sigiPattern html = Some m \<and> JSON_parse (group1 m) = Inl e
          \<longrightarrow> pattern3_sigiState html = Inr None"
    by (simp add: pattern3_sigiState_def try_catch_def bind_def)
  have absent: "exec jsonLdPattern html = None \<and> exec metaDescPattern html = None
        \<and> exec sigiPattern html = None \<and> exec bioElementPattern html = None
        \<longrightarrow> extractBioFromHtml html = Inr JNull"
    by (auto intro!: no_result_gives_null
        simp: pattern1_jsonLd_def pattern2_metaDescription_def pattern3_sigiState_def
          pattern4_bioElement_def)
  show ?thesis
    using pattern1_total pattern2_total pattern3_total pattern4_total
      extractBioFromHtml_total caught1 caught3 no_result_gives_null absent
    by blast
qed

theorem extractBio_never_throws_witness:
  "extractBioFromHtml (js ''<html><body>nothing here</body></html>'') = Inr JNull
   \<and> pattern1_jsonLd (jsonLdBlock (js ''{oops'')) = Inr None"
proof -
  have none: "exec jsonLdPattern (js ''<html><body>nothing here</body></html>'') = None
      \<and> exec metaDescPattern (js ''<html><body>nothing here</body></html>'') = None
      \<and> exec sigiPattern (js ''<html><body>nothing here</body></html>'') = None
      \<and> exec bioElementPattern (js ''<html><body>nothing here</body></html>'') = None"
    by code_simp
  have "map_option group1 (exec jsonLdPattern (jsonLdBlock (js ''{oops''))) = Some (js ''{oops'')"
    by code_simp
  then obtain m where m: "exec jsonLdPattern (jsonLdBlock (js ''{oops'')) = Some m"
    and g: "group1 m = js ''{oops''"
    by auto
  have bad: "JSON_parse (js ''{oops'') = Inl SyntaxError"
    by code_simp
  from none extractBio_never_throws [of "js ''<html><body>nothing here</body></html>''"]
  have first: "extractBioFromHtml (js ''<html><body>nothing here</body></html>'') = Inr JNull"
    by blast
  from m g bad extractBio_never_throws [of "jsonLdBlock (js ''{oops'')"]
  have "pattern1_jsonLd (jsonLdBlock (js ''{oops'')) = Inr None"
    by metis
  with first show ?thesis by simp
qed

lemma js_append: "js a @ js b = js (a @ b)"
  by (simp add: js_def)

section \<open>The first strategy\<close>

text \<open>
  The matcher on the structured-data pattern: a literal matches where the text has it,
  the attributes end at the first \<open>>\<close>, the lazy group ends where the closing tag first
  starts, and \<open>exec\<close> passes the positions where the opening does not start. So the
  match that \<open>exec\<close> finds is the first block of the page.
\<close>

lemma bt_lit:
  "bt (lit s @ p) r marks = (if prefix (js s) r then bt p (drop (length s) r) marks else None)"
proof (induction s arbitrary: r)
  case Nil
  then show ?case by (simp add: lit_def js_def)
next
  case (Cons c s)
  have IH: "\<And>r. bt (lit s @ p) r marks
      = (if prefix (js s) r then bt p (drop (length s) r) marks else None)"
    using Cons.IH .
  show ?case
  proof (cases r)
    case Nil
    then show ?thesis by (simp add: lit_def js_def)
  next
    case (Cons x r')
    have "bt (lit (c # s) @ p) (x # r') marks
          = (if x = cu c then bt (lit s @ p) r' marks else None)"
      by (simp add: lit_def)
    with IH [of r'] Cons show ?thesis
      by (auto simp: js_def)
  qed
qed

lemma bt_lit_here: "bt (lit s @ p) (js s @ r) marks = bt p r marks"
  by (simp add: bt_lit js_def)

lemma bt_lit_None: "\<not> prefix (js s) r \<Longrightarrow> bt (lit s @ p) r marks = None"
  by (simp add: bt_lit)

lemma bt_tag_end:
  assumes "0x3E \<notin> set attrs"
  shows "bt (Star (NotCh 0x3E) # One (Ch 0x3E) # p) (attrs @ 0x3E # r) marks = bt p r marks"
  using assms
  by (induction attrs) (auto split: option.splits)

lemma bt_lazy_until:
  assumes "\<forall>b. suffix b content \<and> b \<noteq> [] \<longrightarrow> \<not> prefix (js close) (b @ js close @ post)"
    and "close \<noteq> []"
  shows "bt (Lazy AnyCh # Mark # lit close) (content @ js close @ post) marks
         = Some (marks @ [js close @ post], post)"
  using assms(1)
proof (induction content)
  case Nil
  from assms(2) obtain c r where cr: "js close @ post = c # r"
    by (cases close) (auto simp: js_def)
  have "bt (Mark # lit close) (js close @ post) marks = Some (marks @ [js close @ post], post)"
    using bt_lit_here [of close "[]" post "marks @ [js close @ post]"]
    by simp
  with cr show ?case by simp
next
  case (Cons x xs)
  have "\<not> prefix (js close) ((x # xs) @ js close @ post)"
    using Cons.prems [rule_format, of "x # xs"] by simp
  then have "bt (Mark # lit close) (x # xs @ js close @ post) marks = None"
    using bt_lit_None [of close "x # xs @ js close @ post" "[]"] by simp
  moreover have "bt (Lazy AnyCh # Mark # lit close) (xs @ js close @ post) marks
         = Some (marks @ [js close @ post], post)"
    using Cons.IH Cons.prems by (simp add: suffix_Cons)
  ultimately show ?case by simp
qed

lemma exec_skip:
  assumes "\<forall>b. suffix b pre \<and> b \<noteq> [] \<longrightarrow> bt p (b @ rest) [] = None"
  shows "exec p (pre @ rest) = exec p rest"
  using assms
proof (induction pre)
  case Nil
  then show ?case by simp
next
  case (Cons x xs)
  have "bt p ((x # xs) @ rest) [] = None"
    using Cons.prems [rule_format, of "x # xs"] by simp
  moreover have "exec p (xs @ rest) = exec p rest"
    using Cons.IH Cons.prems by (simp add: suffix_Cons)
  ultimately show ?case by simp
qed

lemma exec_here: "bt p s [] = Some r \<Longrightarrow> exec p s = Some r"
  by (cases s) simp_all

lemma firstJsonLdBlock_exec:
  assumes "firstJsonLdBlock html content"
  shows "\<exists>match. exec jsonLdPattern html = Some match \<and> group1 match = content"
proof -
  let ?open = "''<script type=\"application/ld+json\"''"
  from assms obtain pre attrs post where
    html: "html = pre @ js ?open @ attrs @ 0x3E # content @ js ''</script>'' @ post"
    and first: "\<forall>b. suffix b pre \<and> b \<noteq> [] \<longrightarrow>
      \<not> prefix (js ?open) (b @ js ?open @ attrs @ 0x3E # content @ js ''</script>'' @ post)"
    and attrs: "0x3E \<notin> set attrs"
    and content: "\<forall>b. suffix b content \<and> b \<noteq> [] \<longrightarrow>
      \<not> prefix (js ''</script>'') (b @ js ''</script>'' @ post)"
    unfolding firstJsonLdBlock_def by blast
  let ?tail = "content @ js ''</script>'' @ post"
  let ?block = "js ?open @ attrs @ 0x3E # ?tail"
  let ?rest = "[Star (NotCh 0x3E), One (Ch 0x3E)] @ [Mark, Lazy AnyCh, Mark] @ lit ''</script>''"
  have pat: "jsonLdPattern = lit ?open @ ?rest"
    by (simp add: jsonLdPattern_def)
  have skip: "exec jsonLdPattern (pre @ ?block) = exec jsonLdPattern ?block"
  proof (rule exec_skip, intro allI impI)
    fix b
    assume "suffix b pre \<and> b \<noteq> []"
    with first have "\<not> prefix (js ?open) (b @ ?block)"
      by blast
    then show "bt jsonLdPattern (b @ ?block) [] = None"
      unfolding pat by (rule bt_lit_None)
  qed
  have "bt jsonLdPattern ?block [] = bt ?rest (attrs @ 0x3E # ?tail) []"
    unfolding pat by (rule bt_lit_here)
  also have "\<dots> = bt ([Mark, Lazy AnyCh, Mark] @ lit ''</script>'') ?tail []"
    using bt_tag_end [OF attrs] by simp
  also have "\<dots> = Some ([?tail, js ''</script>'' @ post], post)"
    using bt_lazy_until [OF content, of "[?tail]"] by simp
  finally have "exec jsonLdPattern ?block = Some ([?tail, js ''</script>'' @ post], post)"
    by (rule exec_here)
  with skip html show ?thesis by simp
qed

lemma firstJsonLdBlock_front:
  assumes "0x3C \<notin> set content"
  shows "firstJsonLdBlock (jsonLdBlock content @ post) content"
proof -
  have eq: "jsonLdBlock content @ post
        = [] @ js ''<script type=\"application/ld+json\"'' @ [] @ 0x3E # content
            @ js ''</script>'' @ post"
    by (simp add: jsonLdBlock_def js_def cu_def)
  have inside: "\<forall>b. suffix b content \<and> b \<noteq> [] \<longrightarrow>
               \<not> prefix (js ''</script>'') (b @ js ''</script>'' @ post)"
  proof (intro allI impI)
    fix b
    assume b: "suffix b content \<and> b \<noteq> []"
    then obtain x b' where xb: "b = x # b'"
      by (cases b) auto
    with b have "x \<in> set content"
      by (auto simp: suffix_def)
    with assms have "x \<noteq> 0x3C"
      by auto
    with xb show "\<not> prefix (js ''</script>'') (b @ js ''</script>'' @ post)"
      by (simp add: js_def cu_def)
  qed
  show ?thesis
    unfolding firstJsonLdBlock_def
    apply (rule exI [of _ "[]"], rule exI [of _ "[]"], rule exI [of _ post])
    using eq inside by simp
qed

text \<open>
  Claim C1, as amended. When the content of the first structured-data block of the page
  (the leftmost match of the pattern) is accepted by \<open>JSON.parse\<close> and the parsed value
  has a \<open>description\<close> that is true in a condition (for a string: not empty),
  \<open>extractBioFromHtml\<close> returns that description, whatever else the page contains.
\<close>

theorem jsonLd_first_block_description:
  assumes "JSON_parse content = Inr jsonData"
    and "getProp jsonData (js ''description'') = Inr description"
    and "truthy description"
  shows "(\<forall>match. exec jsonLdPattern html = Some match \<and> group1 match = content
            \<longrightarrow> extractBioFromHtml html = Inr description)
     \<and> (firstJsonLdBlock html content \<longrightarrow> extractBioFromHtml html = Inr description)"
proof -
  have m: "\<forall>match. exec jsonLdPattern html = Some match \<and> group1 match = content
            \<longrightarrow> extractBioFromHtml html = Inr description"
    using assms
    by (simp add: extractBioFromHtml_def pattern1_jsonLd_def try_catch_def bind_def)
  with firstJsonLdBlock_exec [of html content] show ?thesis
    by blast
qed

text \<open>
  A page with a structured-data block, a meta description and a bio element: the
  description of the block is returned.
\<close>

theorem jsonLd_first_block_description_witness:
  "extractBioFromHtml
     (jsonLdBlock (js ''{\"description\":\"hi\"}'') @ metaTag (js ''meta bio'')
      @ bioDiv (js ''div bio''))
   = Inr (JStr (js ''hi''))"
proof -
  have "0x3C \<notin> set (js ''{\"description\":\"hi\"}'')"
    by (simp add: js_def cu_def)
  then have b: "firstJsonLdBlock
      (jsonLdBlock (js ''{\"description\":\"hi\"}'') @ metaTag (js ''meta bio'')
        @ bioDiv (js ''div bio''))
      (js ''{\"description\":\"hi\"}'')"
    by (rule firstJsonLdBlock_front)
  have p: "JSON_parse (js ''{\"description\":\"hi\"}'') = Inr (JObj [(js ''description'', JStr (js ''hi''))])"
    by code_simp
  have d: "getProp (JObj [(js ''description'', JStr (js ''hi''))]) (js ''description'') = Inr (JStr (js ''hi''))"
    by code_simp
  have t: "truthy (JStr (js ''hi''))"
    by code_simp
  show ?thesis
    using jsonLd_first_block_description [OF p d t] b by blast
qed

text \<open>
  Claim C1 as the specification states it fails. A page whose second structured-data
  block parses and carries the description \<open>hi\<close> (alone on a page, that block gives
  \<open>hi\<close>) gives \<open>null\<close> when the first block has no description; and a block whose
  description is the empty string gives \<open>null\<close>, not the empty string.
\<close>

theorem jsonLd_description_counterexample:
  "extractBioFromHtml (jsonLdBlock (js ''{}'') @ jsonLdBlock (js ''{\"description\":\"hi\"}'')) = Inr JNull
   \<and> extractBioFromHtml (jsonLdBlock (js ''{\"description\":\"hi\"}'')) = Inr (JStr (js ''hi''))
   \<and> JSON_parse (js ''{\"description\":\"\"}'') = Inr (JObj [(js ''description'', JStr [])])
   \<and> extractBioFromHtml (jsonLdBlock (js ''{\"description\":\"\"}'')) = Inr JNull"
  by code_simp



section \<open>The matcher\<close>

lemma startsWith_prefix: "startsWith s t = prefix t s"
  by (induction s t rule: startsWith.induct) auto

lemma str_includes_sublist: "str_includes s t = sublist t s"
  by (induction s) (auto simp: sublist_Cons_right startsWith_prefix)

text \<open>
  Claim C2. On a bio and a code that are strings, the matcher returns whether the
  lower-cased code is a contiguous part of the lower-cased bio, unit for unit: nothing
  but \<open>toLowerCase\<close> is applied to either.
\<close>

theorem codeFound_iff_sublist:
  "codeFound lower (JStr bio) (JStr code) = Inr (sublist (lower code) (lower bio))"
  by (simp add: codeFound_def toLowerCase_def bind_def str_includes_sublist)

text \<open>
  The scenario of the specification, and the same bio with a space inside the code.
\<close>

theorem codeFound_iff_sublist_witness:
  "sublist (asciiLower (js ''abc123'')) (asciiLower (js ''Verify: ABC123 #brand''))
   \<and> \<not> sublist (asciiLower (js ''abc123'')) (asciiLower (js ''Verify: ABC 123 #brand''))"
proof -
  have "codeFound asciiLower (JStr (js ''Verify: ABC123 #brand'')) (JStr (js ''abc123'')) = Inr True"
    by code_simp
  moreover have "codeFound asciiLower (JStr (js ''Verify: ABC 123 #brand'')) (JStr (js ''abc123'')) = Inr False"
    by code_simp
  ultimately show ?thesis
    using codeFound_iff_sublist [of asciiLower "js ''Verify: ABC123 #brand''" "js ''abc123''"]
      codeFound_iff_sublist [of asciiLower "js ''Verify: ABC 123 #brand''" "js ''abc123''"]
    by simp
qed

text \<open>
  The contract of the matcher takes a code that is a string. On any other code the call
  of \<open>toLowerCase\<close> throws, inside the \<open>try\<close> of the retry loop.
\<close>

lemma codeFound_not_string:
  "(\<forall>s. code \<noteq> JStr s) \<Longrightarrow> codeFound lower (JStr bio) code = Inl TypeError"
  by (cases code) (simp_all add: codeFound_def toLowerCase_def bind_def)

section \<open>The fetcher and the retry loop\<close>

lemma scrape_world:
  "snd (scrapeTikTokBio net username w) = w @ [Fetched (profileUrl username)]"
  by (simp add: scrapeTikTokBio_def fetch_def split: prod.splits)

lemma attempts_done:
  "maxRetries < attempt \<Longrightarrow> attempts net lower username code attempt w = (Inr False, w)"
  by (subst attempts.simps) simp

lemma attempts_error_step:
  assumes "fst (scrapeTikTokBio net username w) = Inl e" and "attempt \<le> maxRetries"
  shows "attempts net lower username code attempt w =
           (if attempt = maxRetries then (Inl e, w @ [Fetched (profileUrl username)])
            else attempts net lower username code (attempt + 1)
                   (w @ [Fetched (profileUrl username), Slept (1000 * attempt)]))"
proof -
  obtain r w1 where s: "scrapeTikTokBio net username w = (r, w1)"
    by (cases "scrapeTikTokBio net username w")
  with assms(1) scrape_world [of net username w]
  have "r = Inl e" "w1 = w @ [Fetched (profileUrl username)]"
    by simp_all
  with s assms(2) show ?thesis
    by (subst attempts.simps) (simp add: bind_def sleep_def)
qed

lemma attempts_empty_step:
  assumes "fst (scrapeTikTokBio net username w) = Inr v" and "\<not> truthy v"
    and "attempt \<le> maxRetries"
  shows "attempts net lower username code attempt w =
           (if attempt < maxRetries
            then attempts net lower username code (attempt + 1)
                   (w @ [Fetched (profileUrl username), Slept (2000 * attempt)])
            else attempts net lower username code (attempt + 1)
                   (w @ [Fetched (profileUrl username)]))"
proof -
  obtain r w1 where s: "scrapeTikTokBio net username w = (r, w1)"
    by (cases "scrapeTikTokBio net username w")
  with assms(1) scrape_world [of net username w]
  have "r = Inr v" "w1 = w @ [Fetched (profileUrl username)]"
    by simp_all
  with s assms(2,3) show ?thesis
    by (subst attempts.simps) (simp add: bind_def sleep_def)
qed

text \<open>
  Claim C4. When the fetcher throws in every state of the world, \<open>checkTikTokBio\<close>
  does exactly this: a GET, a pause of 1000 ms, a GET, a pause of 2000 ms, a third GET;
  and it throws the error of the third attempt.
\<close>

theorem failing_fetcher_three_attempts:
  assumes "\<forall>w. \<exists>e. fst (scrapeTikTokBio net username w) = Inl e"
  shows "\<exists>e. fst (scrapeTikTokBio net username
                  (w @ [Fetched (profileUrl username), Slept 1000,
                        Fetched (profileUrl username), Slept 2000])) = Inl e
           \<and> checkTikTokBio net lower username code w =
               (Inl e, w @ [Fetched (profileUrl username), Slept 1000,
                            Fetched (profileUrl username), Slept 2000,
                            Fetched (profileUrl username)])"
proof -
  let ?u = "profileUrl username"
  let ?w1 = "w @ [Fetched ?u, Slept 1000]"
  let ?w2 = "w @ [Fetched ?u, Slept 1000, Fetched ?u, Slept 2000]"
  from assms obtain e1 where e1: "fst (scrapeTikTokBio net username w) = Inl e1"
    by blast
  from assms obtain e2 where e2: "fst (scrapeTikTokBio net username ?w1) = Inl e2"
    by blast
  from assms obtain e3 where e3: "fst (scrapeTikTokBio net username ?w2) = Inl e3"
    by blast
  have "attempts net lower username code 1 w = attempts net lower username code 2 ?w1"
    using attempts_error_step [OF e1, where attempt = 1 and lower = lower and code = code] by (simp add: maxRetries_def)
  also have "\<dots> = attempts net lower username code 3 ?w2"
    using attempts_error_step [OF e2, where attempt = 2 and lower = lower and code = code] by (simp add: maxRetries_def)
  also have "\<dots> = (Inl e3, ?w2 @ [Fetched ?u])"
    using attempts_error_step [OF e3, where attempt = 3 and lower = lower and code = code] by (simp add: maxRetries_def)
  finally show ?thesis
    using e3 by (simp add: checkTikTokBio_def)
qed

text \<open>A profile that does not exist: the error after the three attempts is the not-found one.\<close>

lemma scrape_always_404:
  "fst (scrapeTikTokBio (always 404 reason page) username w)
   = Inl (Error (js ''TikTok user @'' @ username @ js '' not found''))"
  by (simp add: scrapeTikTokBio_def fetch_def always_def bind_def ok_def)

theorem failing_fetcher_three_attempts_witness:
  "checkTikTokBio (always 404 (js ''Not Found'') []) asciiLower (js ''bob'') (JStr (js ''abc'')) []
   = (Inl (Error (js ''TikTok user @bob not found'')),
      [Fetched (js ''https://www.tiktok.com/@bob''), Slept 1000,
       Fetched (js ''https://www.tiktok.com/@bob''), Slept 2000,
       Fetched (js ''https://www.tiktok.com/@bob'')])"
proof -
  have "\<forall>w. \<exists>e. fst (scrapeTikTokBio (always 404 (js ''Not Found'') []) (js ''bob'') w) = Inl e"
    by (simp add: scrape_always_404)
  from failing_fetcher_three_attempts [OF this, of "[]" asciiLower "JStr (js ''abc'')"]
  show ?thesis
    by (simp add: scrape_always_404 profileUrl_def js_append)
qed

text \<open>
  Claim C5. When the fetcher returns \<open>null\<close> in every state of the world,
  \<open>checkTikTokBio\<close> does a GET, a pause of 2000 ms, a GET, a pause of 4000 ms and a
  third GET, and returns \<open>false\<close>; it does not throw.
\<close>

theorem no_result_three_attempts:
  assumes "\<forall>w. fst (scrapeTikTokBio net username w) = Inr JNull"
  shows "checkTikTokBio net lower username code w =
           (Inr False, w @ [Fetched (profileUrl username), Slept 2000,
                            Fetched (profileUrl username), Slept 4000,
                            Fetched (profileUrl username)])"
proof -
  let ?u = "profileUrl username"
  let ?w1 = "w @ [Fetched ?u, Slept 2000]"
  let ?w2 = "w @ [Fetched ?u, Slept 2000, Fetched ?u, Slept 4000]"
  from assms have n: "\<And>w'. fst (scrapeTikTokBio net username w') = Inr JNull"
    by blast
  have "attempts net lower username code 1 w = attempts net lower username code 2 ?w1"
    using attempts_empty_step [OF n, where attempt = 1 and w = w and lower = lower and code = code] by (simp add: maxRetries_def)
  also have "\<dots> = attempts net lower username code 3 ?w2"
    using attempts_empty_step [OF n, where attempt = 2 and w = ?w1 and lower = lower and code = code] by (simp add: maxRetries_def)
  also have "\<dots> = attempts net lower username code 4 (?w2 @ [Fetched ?u])"
    using attempts_empty_step [OF n, where attempt = 3 and w = ?w2 and lower = lower and code = code] by (simp add: maxRetries_def)
  also have "\<dots> = (Inr False, ?w2 @ [Fetched ?u])"
    by (rule attempts_done) (simp add: maxRetries_def)
  finally show ?thesis
    by (simp add: checkTikTokBio_def)
qed

lemma scrape_always_200:
  "fst (scrapeTikTokBio (always 200 reason page) username w) = extractBioFromHtml page"
  by (simp add: scrapeTikTokBio_def fetch_def always_def bind_def ok_def)

theorem no_result_three_attempts_witness:
  "checkTikTokBio (always 200 (js ''OK'') (js ''<html><body>nothing here</body></html>''))
     asciiLower (js ''bob'') (JStr (js ''abc'')) []
   = (Inr False,
      [Fetched (js ''https://www.tiktok.com/@bob''), Slept 2000,
       Fetched (js ''https://www.tiktok.com/@bob''), Slept 4000,
       Fetched (js ''https://www.tiktok.com/@bob'')])"
proof -
  have "extractBioFromHtml (js ''<html><body>nothing here</body></html>'') = Inr JNull"
    by code_simp
  then have "\<forall>w. fst (scrapeTikTokBio
      (always 200 (js ''OK'') (js ''<html><body>nothing here</body></html>'')) (js ''bob'') w)
      = Inr JNull"
    by (simp add: scrape_always_200)
  from no_result_three_attempts [OF this, of asciiLower "JStr (js ''abc'')" "[]"]
  show ?thesis
    by (simp add: profileUrl_def js_append)
qed

text \<open>
  Claim C6, as amended. At any attempt within the budget, when the fetcher returns a
  string that is not empty and the code is a string, the loop returns the verdict of the
  matcher on that string and the code,
  and the only event it adds to the world is the GET of this attempt: no pause and no
  further GET, whatever the verdict.
\<close>

theorem bio_obtained_ends_loop:
  assumes "attempt \<le> maxRetries"
    and "fst (scrapeTikTokBio net username w) = Inr (JStr bio)"
    and "bio \<noteq> []"
  shows "\<exists>found. codeFound lower (JStr bio) (JStr code) = Inr found
           \<and> attempts net lower username (JStr code) attempt w
               = (Inr found, w @ [Fetched (profileUrl username)])"
proof -
  obtain r w1 where s: "scrapeTikTokBio net username w = (r, w1)"
    by (cases "scrapeTikTokBio net username w")
  with assms(2) scrape_world [of net username w]
  have r: "r = Inr (JStr bio)" and w1: "w1 = w @ [Fetched (profileUrl username)]"
    by simp_all
  have f: "codeFound lower (JStr bio) (JStr code) = Inr (str_includes (lower bio) (lower code))"
    by (simp add: codeFound_def toLowerCase_def bind_def)
  have "attempts net lower username (JStr code) attempt w
        = (Inr (str_includes (lower bio) (lower code)), w @ [Fetched (profileUrl username)])"
    using s r w1 assms(1,3) f
    by (subst attempts.simps) (simp add: bind_def)
  with f show ?thesis by simp
qed

text \<open>The code is absent from the bio: the verdict is \<open>false\<close> after one GET.\<close>

theorem bio_obtained_ends_loop_witness:
  "attempts (always 200 (js ''OK'') (metaTag (js ''Verify: ABC123 #brand''))) asciiLower
     (js ''bob'') (JStr (js ''zzz'')) 1 []
   = (Inr False, [Fetched (js ''https://www.tiktok.com/@bob'')])"
proof -
  let ?net = "always 200 (js ''OK'') (metaTag (js ''Verify: ABC123 #brand''))"
  have "extractBioFromHtml (metaTag (js ''Verify: ABC123 #brand''))
        = Inr (JStr (js ''Verify: ABC123 #brand''))"
    by code_simp
  then have b: "fst (scrapeTikTokBio ?net (js ''bob'') []) = Inr (JStr (js ''Verify: ABC123 #brand''))"
    by (simp add: scrape_always_200)
  have a: "(1::int) \<le> maxRetries"
    by (simp add: maxRetries_def)
  have n: "js ''Verify: ABC123 #brand'' \<noteq> []"
    by (simp add: js_def)
  have v: "codeFound asciiLower (JStr (js ''Verify: ABC123 #brand'')) (JStr (js ''zzz'')) = Inr False"
    by code_simp
  from bio_obtained_ends_loop [OF a b n, of asciiLower "js ''zzz''"] v
  show ?thesis
    by (auto simp add: profileUrl_def js_append)
qed

text \<open>
  Claim C6 as the specification states it fails. The handler lets any code through that
  is true in a condition. With the code \<open>123456\<close>, a number, the fetcher returns the bio
  at the first attempt, the matcher throws inside the \<open>try\<close>, and the loop goes on as
  after a failed fetch: two more GETs follow the bio that was obtained, and the
  \<open>TypeError\<close> is thrown at the end.
\<close>

theorem bio_obtained_retried_counterexample:
  "fst (scrapeTikTokBio (always 200 (js ''OK'') (metaTag (js ''Verify: ABC123 #brand'')))
         (js ''bob'') [])
   = Inr (JStr (js ''Verify: ABC123 #brand''))
   \<and> checkTikTokBio (always 200 (js ''OK'') (metaTag (js ''Verify: ABC123 #brand''))) asciiLower
       (js ''bob'') (JNum 123456) []
   = (Inl TypeError,
      [Fetched (js ''https://www.tiktok.com/@bob''), Slept 1000,
       Fetched (js ''https://www.tiktok.com/@bob''), Slept 2000,
       Fetched (js ''https://www.tiktok.com/@bob'')])"
  by code_simp

text \<open>
  Claim C7. \<open>scrapeTikTokBio\<close> issues one GET of the profile URL. On a response with
  status 404 it throws the not-found error, on 403 the blocked error, on any other status
  outside 200 to 299 the error that carries the status and the status text; on a status
  in 200 to 299 whose body is read, it returns what the extractor returns on the body.
\<close>

theorem scrape_classifies_response:
  assumes "net (length (filter isFetched w)) (profileUrl username) = Inr r"
  shows "snd (scrapeTikTokBio net username w) = w @ [Fetched (profileUrl username)]
     \<and> (status r = 404 \<longrightarrow> fst (scrapeTikTokBio net username w)
            = Inl (Error (js ''TikTok user @'' @ username @ js '' not found'')))
     \<and> (status r = 403 \<longrightarrow> fst (scrapeTikTokBio net username w)
            = Inl (Error (js ''TikTok blocked request (403 Forbidden)'')))
     \<and> (\<not> ok r \<and> status r \<noteq> 404 \<and> status r \<noteq> 403 \<longrightarrow> fst (scrapeTikTokBio net username w)
            = Inl (Error (js ''HTTP '' @ decimal (status r) @ js '': '' @ statusText r)))
     \<and> (\<forall>html. ok r \<and> bodyText r = Inr html \<longrightarrow> fst (scrapeTikTokBio net username w)
            = extractBioFromHtml html)"
  using assms
  by (simp add: scrapeTikTokBio_def fetch_def bind_def ok_def)

theorem scrape_classifies_response_witness:
  "fst (scrapeTikTokBio (always 404 (js ''Not Found'') []) (js ''bob'') [])
     = Inl (Error (js ''TikTok user @bob not found''))
   \<and> fst (scrapeTikTokBio (always 403 (js ''Forbidden'') []) (js ''bob'') [])
     = Inl (Error (js ''TikTok blocked request (403 Forbidden)''))
   \<and> fst (scrapeTikTokBio (always 503 (js ''Service Unavailable'') []) (js ''bob'') [])
     = Inl (Error (js ''HTTP 503: Service Unavailable''))
   \<and> fst (scrapeTikTokBio (always 200 (js ''OK'') (metaTag (js ''my bio''))) (js ''bob'') [])
     = Inr (JStr (js ''my bio''))
   \<and> fst (scrapeTikTokBio (always 200 (js ''OK'') (js ''<html></html>'')) (js ''bob'') [])
     = Inr JNull"
proof -
  have d: "decimal 503 = js ''503''"
    by code_simp
  have x1: "extractBioFromHtml (metaTag (js ''my bio'')) = Inr (JStr (js ''my bio''))"
    by code_simp
  have x2: "extractBioFromHtml (js ''<html></html>'') = Inr JNull"
    by code_simp
  show ?thesis
    using scrape_classifies_response [of "always 404 (js ''Not Found'') []" "[]" "js ''bob''"
          "\<lparr>status = 404, statusText = js ''Not Found'', bodyText = Inr []\<rparr>"]
      scrape_classifies_response [of "always 403 (js ''Forbidden'') []" "[]" "js ''bob''"
          "\<lparr>status = 403, statusText = js ''Forbidden'', bodyText = Inr []\<rparr>"]
      scrape_classifies_response [of "always 503 (js ''Service Unavailable'') []" "[]" "js ''bob''"
          "\<lparr>status = 503, statusText = js ''Service Unavailable'', bodyText = Inr []\<rparr>"]
      scrape_classifies_response [of "always 200 (js ''OK'') (metaTag (js ''my bio''))" "[]" "js ''bob''"
          "\<lparr>status = 200, statusText = js ''OK'', bodyText = Inr (metaTag (js ''my bio''))\<rparr>"]
      scrape_classifies_response [of "always 200 (js ''OK'') (js ''<html></html>'')" "[]" "js ''bob''"
          "\<lparr>status = 200, statusText = js ''OK'', bodyText = Inr (js ''<html></html>'')\<rparr>"]
      d x1 x2
    by (simp add: always_def ok_def js_append)
qed

section \<open>Validation and cleaning of the request\<close>

lemma post_not_options: "js ''POST'' \<noteq> js ''OPTIONS''"
  by (simp add: js_def)

lemma trim_Nil: "trim [] = []"
  by (simp add: trim_def)

text \<open>
  Claim C8, as amended. On a POST whose body has the two fields: when the username or the
  code is false in a condition as received (missing, \<open>null\<close>, the empty string), the
  handler replies 400 and the world is unchanged, so nothing was fetched; when the
  username is a string that is not empty once its first \<open>@\<close> is removed and it is
  trimmed, and the code is true in a condition and converts to a string (as every string
  does), the handler replies with what \<open>checkTikTokBio\<close> gives on the username so
  cleaned; when the username is a string and the code is true in a condition but does not
  convert to a string, the handler replies 500 and nothing was fetched. A leading \<open>@\<close>
  is the first one.
\<close>

theorem handler_normalizes_and_validates:
  assumes "httpMethod req = js ''POST''"
    and "getProp (body req) (js ''username'') = Inr username"
    and "getProp (body req) (js ''code'') = Inr code"
  shows "(\<not> truthy username \<or> \<not> truthy code \<longrightarrow> handler net lower req w = (Required, w))
     \<and> (\<forall>u. username = JStr u \<and> trim (removeFirst 0x40 u) \<noteq> [] \<and> truthy code
            \<and> convertsToString code \<longrightarrow>
          handler net lower req w =
            (case checkTikTokBio net lower (trim (removeFirst 0x40 u)) code w of
               (Inr found, w') \<Rightarrow> (Verdict found (trim (removeFirst 0x40 u)) code, w')
             | (Inl e, w') \<Rightarrow> (InternalError e, w')))
     \<and> (\<forall>u. username = JStr u \<and> u \<noteq> [] \<and> truthy code \<and> \<not> convertsToString code \<longrightarrow>
          handler net lower req w = (InternalError TypeError, w))
     \<and> (\<forall>s. convertsToString (JStr s))
     \<and> cleanUsername (JStr (0x40 # rest)) = Inr (trim rest)"
  using assms post_not_options trim_Nil
  by (auto simp: handler_def bind_def cleanUsername_def logChecking_def
      split: prod.splits sum.splits)

text \<open>
  The scenario of the specification: \<open>@Example.User\<close> followed by a space becomes
  \<open>Example.User\<close> and the code \<open>abc123\<close> is found in the bio; an empty username is
  rejected without a GET; a code that is an object with a property \<open>toString\<close> ends in
  the reply 500 without a GET.
\<close>

theorem handler_normalizes_and_validates_witness:
  "handler (always 200 (js ''OK'') (metaTag (js ''Verify: ABC123 #brand''))) asciiLower
     \<lparr>httpMethod = js ''POST'',
      body = JObj [(js ''username'', JStr (js ''@Example.User '')), (js ''code'', JStr (js ''abc123''))]\<rparr> []
   = (Verdict True (js ''Example.User'') (JStr (js ''abc123'')),
      [Fetched (js ''https://www.tiktok.com/@Example.User'')])
   \<and> handler (always 200 (js ''OK'') (metaTag (js ''Verify: ABC123 #brand''))) asciiLower
     \<lparr>httpMethod = js ''POST'',
      body = JObj [(js ''username'', JStr []), (js ''code'', JStr (js ''abc123''))]\<rparr> []
   = (Required, [])
   \<and> handler (always 200 (js ''OK'') (metaTag (js ''Verify: ABC123 #brand''))) asciiLower
     \<lparr>httpMethod = js ''POST'',
      body = JObj [(js ''username'', JStr (js ''bob'')), (js ''code'', JObj [(js ''toString'', JNull)])]\<rparr> []
   = (InternalError TypeError, [])
   \<and> cleanUsername (JStr (js ''@Example.User '')) = Inr (js ''Example.User'')"
proof -
  let ?net = "always 200 (js ''OK'') (metaTag (js ''Verify: ABC123 #brand''))"
  let ?b1 = "JObj [(js ''username'', JStr (js ''@Example.User '')), (js ''code'', JStr (js ''abc123''))]"
  let ?b2 = "JObj [(js ''username'', JStr []), (js ''code'', JStr (js ''abc123''))]"
  have u1: "getProp ?b1 (js ''username'') = Inr (JStr (js ''@Example.User ''))"
    by code_simp
  have c1: "getProp ?b1 (js ''code'') = Inr (JStr (js ''abc123''))"
    by code_simp
  have u2: "getProp ?b2 (js ''username'') = Inr (JStr [])"
    by code_simp
  have c2: "getProp ?b2 (js ''code'') = Inr (JStr (js ''abc123''))"
    by code_simp
  have t: "trim (removeFirst 0x40 (js ''@Example.User '')) = js ''Example.User''"
    by code_simp
  have t': "trim (js ''Example.User '') = js ''Example.User''"
    by code_simp
  have k: "checkTikTokBio ?net asciiLower (js ''Example.User'') (JStr (js ''abc123'')) []
           = (Inr True, [Fetched (js ''https://www.tiktok.com/@Example.User'')])"
    by code_simp
  have ne: "js ''Example.User'' \<noteq> []" "truthy (JStr (js ''abc123''))"
    "convertsToString (JStr (js ''abc123''))"
    by (simp_all add: js_def)
  let ?b3 = "JObj [(js ''username'', JStr (js ''bob'')), (js ''code'', JObj [(js ''toString'', JNull)])]"
  have u3: "getProp ?b3 (js ''username'') = Inr (JStr (js ''bob''))"
    by code_simp
  have c3: "getProp ?b3 (js ''code'') = Inr (JObj [(js ''toString'', JNull)])"
    by code_simp
  have ne3: "js ''bob'' \<noteq> []" "truthy (JObj [(js ''toString'', JNull)])"
    "\<not> convertsToString (JObj [(js ''toString'', JNull)])"
    by (simp_all add: js_def)
  have at: "js ''@Example.User '' = 0x40 # js ''Example.User ''"
    by (simp add: js_def cu_def)
  have first: "handler ?net asciiLower \<lparr>httpMethod = js ''POST'', body = ?b1\<rparr> []
      = (Verdict True (js ''Example.User'') (JStr (js ''abc123'')),
         [Fetched (js ''https://www.tiktok.com/@Example.User'')])"
    using handler_normalizes_and_validates [of "\<lparr>httpMethod = js ''POST'', body = ?b1\<rparr>" "JStr (js ''@Example.User '')"
        "JStr (js ''abc123'')" ?net asciiLower "[]"] u1 c1 t k ne
    by simp
  have second: "handler ?net asciiLower \<lparr>httpMethod = js ''POST'', body = ?b2\<rparr> [] = (Required, [])"
    using handler_normalizes_and_validates [of "\<lparr>httpMethod = js ''POST'', body = ?b2\<rparr>" "JStr []"
        "JStr (js ''abc123'')" ?net asciiLower "[]"] u2 c2
    by simp
  have third: "cleanUsername (JStr (js ''@Example.User '')) = Inr (js ''Example.User'')"
    using handler_normalizes_and_validates [where req = "\<lparr>httpMethod = js ''POST'', body = ?b1\<rparr>"
        and username = "JStr (js ''@Example.User '')" and code = "JStr (js ''abc123'')"
        and rest = "js ''Example.User ''"] u1 c1 t' at
    by simp
  have fourth: "handler ?net asciiLower \<lparr>httpMethod = js ''POST'', body = ?b3\<rparr> []
      = (InternalError TypeError, [])"
    using handler_normalizes_and_validates [of "\<lparr>httpMethod = js ''POST'', body = ?b3\<rparr>"
        "JStr (js ''bob'')" "JObj [(js ''toString'', JNull)]" ?net asciiLower "[]"] u3 c3 ne3
    by simp
  from first second third fourth show ?thesis by simp
qed

text \<open>
  Claim C8 as the specification states it fails. The username \<open>@\<close> is empty after
  cleaning and the request still reaches \<open>checkTikTokBio\<close>: three GETs of the URL with
  no user name are issued. And the \<open>@\<close> that is removed need not be a leading one.
\<close>

theorem handler_validation_counterexample:
  "handler (always 404 (js ''Not Found'') []) asciiLower
     \<lparr>httpMethod = js ''POST'',
      body = JObj [(js ''username'', JStr (js ''@'')), (js ''code'', JStr (js ''abc''))]\<rparr> []
   = (InternalError (Error (js ''TikTok user @ not found'')),
      [Fetched (js ''https://www.tiktok.com/@''), Slept 1000,
       Fetched (js ''https://www.tiktok.com/@''), Slept 2000,
       Fetched (js ''https://www.tiktok.com/@'')])
   \<and> cleanUsername (JStr (js ''@'')) = Inr []
   \<and> cleanUsername (JStr (js ''user@name'')) = Inr (js ''username'')"
  by code_simp

section \<open>The third strategy\<close>

lemma getProp_truthy: "getProp v k = Inr s \<Longrightarrow> truthy s \<Longrightarrow> truthy v"
  by (cases v) (auto split: option.splits if_splits)

lemma getProp_defined: "truthy v \<Longrightarrow> \<exists>r. getProp v k = Inr r"
  by (cases v) (auto split: option.splits)

text \<open>
  Claim C9, as amended. When the first two strategies give no result and the state blob
  parses: \<open>findUserInSigiState\<close> selects the first user of \<open>UserModule.users\<close> (in the
  order of \<open>Object.keys\<close>) when that table is there and has a key; when \<open>UserModule\<close>
  or its table is missing or the table has no key, it selects \<open>UserPage.user\<close>; and
  when the selected record has a signature that is true in a condition (not empty),
  \<open>extractBioFromHtml\<close> returns that signature.
\<close>

theorem sigiState_selected_user_signature:
  assumes "pattern1_jsonLd html = Inr None"
    and "pattern2_metaDescription html = Inr None"
    and "exec sigiPattern html = Some match"
    and "JSON_parse (group1 match) = Inr sigiState"
  shows "(\<forall>userModule users k ks.
            getProp sigiState (js ''UserModule'') = Inr userModule \<and> truthy userModule
            \<and> getProp userModule (js ''users'') = Inr users \<and> truthy users
            \<and> Object_keys users = Inr (k # ks)
            \<longrightarrow> findUserInSigiState sigiState = getProp users k)
     \<and> (\<forall>userModule userPage user.
            getProp sigiState (js ''UserModule'') = Inr userModule
            \<and> (\<not> truthy userModule
                \<or> (\<exists>users. getProp userModule (js ''users'') = Inr users
                      \<and> (\<not> truthy users \<or> Object_keys users = Inr [])))
            \<and> getProp sigiState (js ''UserPage'') = Inr userPage \<and> truthy userPage
            \<and> getProp userPage (js ''user'') = Inr user \<and> truthy user
            \<longrightarrow> findUserInSigiState sigiState = Inr user)
     \<and> (\<forall>userDetails signature.
            findUserInSigiState sigiState = Inr userDetails
            \<and> getProp userDetails (js ''signature'') = Inr signature \<and> truthy signature
            \<longrightarrow> extractBioFromHtml html = Inr signature)"
proof (intro conjI allI impI)
  fix userModule users k ks
  assume a: "getProp sigiState (js ''UserModule'') = Inr userModule \<and> truthy userModule
            \<and> getProp userModule (js ''users'') = Inr users \<and> truthy users
            \<and> Object_keys users = Inr (k # ks)"
  then obtain r where "getProp users k = Inr r"
    using getProp_defined [of users k] by blast
  with a show "findUserInSigiState sigiState = getProp users k"
    by (simp add: findUserInSigiState_def try_catch_def bind_def andAlso_def)
next
  fix userModule userPage user
  assume a: "getProp sigiState (js ''UserModule'') = Inr userModule
            \<and> (\<not> truthy userModule
                \<or> (\<exists>users. getProp userModule (js ''users'') = Inr users
                      \<and> (\<not> truthy users \<or> Object_keys users = Inr [])))
            \<and> getProp sigiState (js ''UserPage'') = Inr userPage \<and> truthy userPage
            \<and> getProp userPage (js ''user'') = Inr user \<and> truthy user"
  then show "findUserInSigiState sigiState = Inr user"
    by (auto simp: findUserInSigiState_def try_catch_def bind_def andAlso_def)
next
  fix userDetails signature
  assume a: "findUserInSigiState sigiState = Inr userDetails
            \<and> getProp userDetails (js ''signature'') = Inr signature \<and> truthy signature"
  then have "truthy userDetails"
    using getProp_truthy by blast
  with a assms(3,4) have "pattern3_sigiState html = Inr (Some signature)"
    by (simp add: pattern3_sigiState_def try_catch_def bind_def andAlso_def)
  with assms(1,2) show "extractBioFromHtml html = Inr signature"
    by (simp add: extractBioFromHtml_def fromPattern2_def fromPattern3_def bind_def)
qed


text \<open>A blob with a user in the table, and a blob with an empty table and a user page.\<close>

theorem sigiState_selected_user_signature_witness:
  "extractBioFromHtml (sigiScript (js
      ''{\"UserModule\":{\"users\":{\"bob\":{\"signature\":\"the bio\"}}}}''))
    = Inr (JStr (js ''the bio''))
   \<and> extractBioFromHtml (sigiScript (js
      ''{\"UserModule\":{\"users\":{}},\"UserPage\":{\"user\":{\"signature\":\"page bio\"}}}''))
    = Inr (JStr (js ''page bio''))"
proof -
  let ?t1 = "js ''{\"UserModule\":{\"users\":{\"bob\":{\"signature\":\"the bio\"}}}}''"
  let ?bob = "JObj [(js ''signature'', JStr (js ''the bio''))]"
  let ?us1 = "JObj [(js ''bob'', ?bob)]"
  let ?um1 = "JObj [(js ''users'', ?us1)]"
  let ?st1 = "JObj [(js ''UserModule'', ?um1)]"
  have p1: "pattern1_jsonLd (sigiScript ?t1) = Inr None"
    and p2: "pattern2_metaDescription (sigiScript ?t1) = Inr None"
    by code_simp+
  have "map_option group1 (exec sigiPattern (sigiScript ?t1)) = Some ?t1"
    by code_simp
  then obtain m1 where m1: "exec sigiPattern (sigiScript ?t1) = Some m1" and "group1 m1 = ?t1"
    by auto
  moreover have "JSON_parse ?t1 = Inr ?st1"
    by code_simp
  ultimately have j1: "JSON_parse (group1 m1) = Inr ?st1"
    by simp
  have sel1: "getProp ?st1 (js ''UserModule'') = Inr ?um1 \<and> truthy ?um1
      \<and> getProp ?um1 (js ''users'') = Inr ?us1 \<and> truthy ?us1
      \<and> Object_keys ?us1 = Inr [js ''bob'']"
    by code_simp
  have rec1: "getProp ?us1 (js ''bob'') = Inr ?bob"
    by code_simp
  have sig1: "getProp ?bob (js ''signature'') = Inr (JStr (js ''the bio'')) \<and> truthy (JStr (js ''the bio''))"
    by code_simp
  note th1 = sigiState_selected_user_signature [OF p1 p2 m1 j1]
  from th1 sel1 rec1 have "findUserInSigiState ?st1 = Inr ?bob"
    by metis
  with th1 sig1 have first: "extractBioFromHtml (sigiScript ?t1) = Inr (JStr (js ''the bio''))"
    by blast
  let ?t2 = "js ''{\"UserModule\":{\"users\":{}},\"UserPage\":{\"user\":{\"signature\":\"page bio\"}}}''"
  let ?user = "JObj [(js ''signature'', JStr (js ''page bio''))]"
  let ?up2 = "JObj [(js ''user'', ?user)]"
  let ?um2 = "JObj [(js ''users'', JObj [])]"
  let ?st2 = "JObj [(js ''UserModule'', ?um2), (js ''UserPage'', ?up2)]"
  have q1: "pattern1_jsonLd (sigiScript ?t2) = Inr None"
    and q2: "pattern2_metaDescription (sigiScript ?t2) = Inr None"
    by code_simp+
  have "map_option group1 (exec sigiPattern (sigiScript ?t2)) = Some ?t2"
    by code_simp
  then obtain m2 where m2: "exec sigiPattern (sigiScript ?t2) = Some m2" and "group1 m2 = ?t2"
    by auto
  moreover have "JSON_parse ?t2 = Inr ?st2"
    by code_simp
  ultimately have j2: "JSON_parse (group1 m2) = Inr ?st2"
    by simp
  have sel2: "getProp ?st2 (js ''UserModule'') = Inr ?um2
      \<and> getProp ?um2 (js ''users'') = Inr (JObj []) \<and> Object_keys (JObj []) = Inr []
      \<and> getProp ?st2 (js ''UserPage'') = Inr ?up2 \<and> truthy ?up2
      \<and> getProp ?up2 (js ''user'') = Inr ?user \<and> truthy ?user"
    by code_simp
  have sig2: "getProp ?user (js ''signature'') = Inr (JStr (js ''page bio''))
      \<and> truthy (JStr (js ''page bio''))"
    by code_simp
  note th2 = sigiState_selected_user_signature [OF q1 q2 m2 j2]
  from th2 sel2 have "findUserInSigiState ?st2 = Inr ?user"
    by blast
  with th2 sig2 have second: "extractBioFromHtml (sigiScript ?t2) = Inr (JStr (js ''page bio''))"
    by blast
  from first second show ?thesis by simp
qed

text \<open>
  Claim C9 as the specification states it fails. The record at \<open>UserPage.user\<close> carries
  a signature (alone in the blob, it is the bio), but the table has a first user without
  one: the result is \<open>null\<close>. And an empty signature gives \<open>null\<close>, not the empty string.
\<close>

theorem sigiState_either_location_counterexample:
  "extractBioFromHtml (sigiScript (js
      ''{\"UserModule\":{\"users\":{\"bob\":{}}},\"UserPage\":{\"user\":{\"signature\":\"page bio\"}}}''))
    = Inr JNull
   \<and> extractBioFromHtml (sigiScript (js ''{\"UserPage\":{\"user\":{\"signature\":\"page bio\"}}}''))
    = Inr (JStr (js ''page bio''))
   \<and> extractBioFromHtml (sigiScript (js ''{\"UserPage\":{\"user\":{\"signature\":\"\"}}}''))
    = Inr JNull"
  by code_simp

end
